theory Spec2Isabelle
  imports Complex_Main "HOL-Library.AList" "HOL-Library.Multiset"
begin

section \<open>Numbers, strings and objects of the host language\<close>

text \<open>
  The four dashboard pages (\<^verbatim>\<open>app/weekly-view\<close>, \<^verbatim>\<open>app/demographic-view\<close>,
  \<^verbatim>\<open>app/device-view\<close>, \<^verbatim>\<open>app/region-view\<close>) each turn the campaign list into
  chart-ready values inside one pure computation.  That computation is embedded here.

  \<^bold>\<open>Numbers.\<close>  A JavaScript number is a binary64 value.  Every finite one is a rational,
  so numbers are \<^typ>\<open>rat\<close>, and each arithmetic operator of the source is the exact
  operation followed by a rounding function \<open>r\<close> that every aggregation takes as its first
  argument.  With \<open>r = exact\<close> the arithmetic is the ideal one; \<open>binary64\<close> below is
  round-to-nearest-even on 53 significant bits.  Overflow to \<open>Infinity\<close> and \<open>NaN\<close> inputs
  are not represented; every division of the source sits behind a guard on its
  denominator, and the guards are kept.

  \<^bold>\<open>Strings.\<close>  A string is a \<^typ>\<open>string\<close>; a character stands for a code unit below 256.
\<close>

type_synonym rounding = "rat \<Rightarrow> rat"

definition exact :: rounding where
  "exact x = x"

definition num_add :: "rounding \<Rightarrow> rat \<Rightarrow> rat \<Rightarrow> rat" where
  "num_add r a b = r (a + b)"

definition num_sub :: "rounding \<Rightarrow> rat \<Rightarrow> rat \<Rightarrow> rat" where
  "num_sub r a b = r (a - b)"

definition num_mul :: "rounding \<Rightarrow> rat \<Rightarrow> rat \<Rightarrow> rat" where
  "num_mul r a b = r (a * b)"

definition num_div :: "rounding \<Rightarrow> rat \<Rightarrow> rat \<Rightarrow> rat" where
  "num_div r a b = r (a / b)"

subsection \<open>Round to nearest, ties to even, 53 bits\<close>






subsection \<open>Objects used as dictionaries\<close>

text \<open>
  A plain object \<^verbatim>\<open>{}\<close> is the list of its own properties in creation order.  Reading
  \<^verbatim>\<open>obj[key]\<close> also finds the members every object inherits from
  \<^verbatim>\<open>Object.prototype\<close>; they are functions or objects, hence truthy.  Enumeration
  (\<^verbatim>\<open>Object.keys\<close>, \<^verbatim>\<open>Object.values\<close>, \<^verbatim>\<open>Object.entries\<close>) lists own properties only:
  first the keys that are array indices, in ascending numeric order, then the other keys
  in creation order.
\<close>

type_synonym 'v jsobject = "(string \<times> 'v) list"

definition objectPrototypeKeys :: "string list" where
  "objectPrototypeKeys =
     [''constructor'', ''__defineGetter__'', ''__defineSetter__'', ''hasOwnProperty'',
      ''__lookupGetter__'', ''__lookupSetter__'', ''isPrototypeOf'', ''propertyIsEnumerable'',
      ''toString'', ''valueOf'', ''__proto__'', ''toLocaleString'']"

datatype 'v property = Own 'v | Inherited | Missing

definition getProperty :: "'v jsobject \<Rightarrow> string \<Rightarrow> 'v property" where
  "getProperty obj key =
     (case map_of obj key of
        Some v \<Rightarrow> Own v
      | None \<Rightarrow> if key \<in> set objectPrototypeKeys then Inherited else Missing)"

definition digitValue :: "char \<Rightarrow> int" where
  "digitValue c = of_char c - 48"

definition isDigit :: "char \<Rightarrow> bool" where
  "isDigit c = (48 \<le> (of_char c :: int) \<and> (of_char c :: int) \<le> 57)"

definition digitsValue :: "string \<Rightarrow> int" where
  "digitsValue s = foldl (\<lambda>n c. 10 * n + digitValue c) 0 s"

definition isArrayIndex :: "string \<Rightarrow> bool" where
  "isArrayIndex key =
     (key \<noteq> [] \<and> list_all isDigit key \<and> (key = ''0'' \<or> \<not> (hd key = CHR ''0''))
      \<and> digitsValue key < 2 ^ 32 - 1)"

definition objectEntries :: "'v jsobject \<Rightarrow> (string \<times> 'v) list" where
  "objectEntries obj =
     sort_key (\<lambda>p. digitsValue (fst p)) (filter (\<lambda>p. isArrayIndex (fst p)) obj)
     @ filter (\<lambda>p. \<not> isArrayIndex (fst p)) obj"

definition objectKeys :: "'v jsobject \<Rightarrow> string list" where
  "objectKeys obj = map fst (objectEntries obj)"

definition objectValues :: "'v jsobject \<Rightarrow> 'v list" where
  "objectValues obj = map snd (objectEntries obj)"

subsection \<open>\<^verbatim>\<open>Array.prototype.sort\<close> with a numeric key\<close>

text \<open>
  The comparators of the source subtract two numbers read off the elements.  A key that is
  \<open>NaN\<close> (here \<open>None\<close>) makes the comparator inconsistent, and the order of the result is
  then left to the engine, which still returns a rearrangement of the array: \<open>engine\<close>
  stands for whatever it does.  Otherwise the sort is the stable ascending one.
\<close>

definition theKey :: "('a \<Rightarrow> rat option) \<Rightarrow> 'a \<Rightarrow> rat" where
  "theKey key x = (case key x of Some k \<Rightarrow> k | None \<Rightarrow> 0)"

definition rearranged :: "('a list \<Rightarrow> 'a list) \<Rightarrow> 'a list \<Rightarrow> 'a list" where
  "rearranged engine xs = (let ys = engine xs in if mset ys = mset xs then ys else xs)"

definition sortByNumber :: "('a list \<Rightarrow> 'a list) \<Rightarrow> ('a \<Rightarrow> rat option) \<Rightarrow> 'a list \<Rightarrow> 'a list" where
  "sortByNumber engine key xs =
     (if list_all (\<lambda>x. \<not> Option.is_none (key x)) xs then sort_key (theKey key) xs
      else rearranged engine xs)"

text \<open>\<^verbatim>\<open>xs.reduce((sum, item) => sum + f(item), 0)\<close>\<close>

definition sumOf :: "rounding \<Rightarrow> ('a \<Rightarrow> rat) \<Rightarrow> 'a list \<Rightarrow> rat" where
  "sumOf r f xs = foldl (\<lambda>sum item. num_add r sum (f item)) 0 xs"

subsection \<open>Strings\<close>

text \<open>\<^verbatim>\<open>s.split(sep)\<close> for a one-character separator; the result is never empty.\<close>

fun split :: "char \<Rightarrow> string \<Rightarrow> string list" where
  "split sep [] = [[]]"
| "split sep (c # cs) =
     (if c = sep then [] # split sep cs
      else (case split sep cs of w # ws \<Rightarrow> (c # w) # ws | [] \<Rightarrow> [[c]]))"

definition isWhiteSpace :: "char \<Rightarrow> bool" where
  "isWhiteSpace c = (of_char c \<in> set [9, 10, 11, 12, 13, 32, 160 :: int])"

definition trim :: "string \<Rightarrow> string" where
  "trim s = rev (dropWhile isWhiteSpace (rev (dropWhile isWhiteSpace s)))"

definition hexDigitValue :: "char \<Rightarrow> int option" where
  "hexDigitValue c =
     (let n = (of_char c :: int)
      in if 48 \<le> n \<and> n \<le> 57 then Some (n - 48)
         else if 65 \<le> n \<and> n \<le> 70 then Some (n - 55)
         else if 97 \<le> n \<and> n \<le> 102 then Some (n - 87)
         else None)"

definition hexValue :: "string \<Rightarrow> int" where
  "hexValue s = foldl (\<lambda>n c. 16 * n + (case hexDigitValue c of Some d \<Rightarrow> d | None \<Rightarrow> 0)) 0 s"

text \<open>
  \<^verbatim>\<open>parseInt(s)\<close> without a radix: leading white space, an optional sign, an optional
  \<^verbatim>\<open>0x\<close> prefix, then the longest run of digits; \<open>None\<close> is \<open>NaN\<close>.
\<close>

definition parseInt :: "rounding \<Rightarrow> string \<Rightarrow> rat option" where
  "parseInt r s =
     (let t = dropWhile isWhiteSpace s;
          negative = (case t of c # _ \<Rightarrow> c = CHR ''-'' | [] \<Rightarrow> False);
          u = (case t of c # rest \<Rightarrow> if c = CHR ''-'' \<or> c = CHR ''+'' then rest else t | [] \<Rightarrow> []);
          hex = (take 2 u = ''0x'' \<or> take 2 u = ''0X'');
          ds = (if hex then takeWhile (\<lambda>c. \<not> Option.is_none (hexDigitValue c)) (drop 2 u)
                else takeWhile isDigit u);
          n = (if hex then hexValue ds else digitsValue ds)
      in if ds = [] then None
         else Some (r (if negative then - of_int n else of_int n)))"

section \<open>The campaign data\<close>

record Engagement =
  impressions :: rat
  clicks :: rat
  conversions :: rat

record Metrics = Engagement +
  spend :: rat
  revenue :: rat

record WeeklyPerformance = Metrics +
  week_start :: string
  week_end :: string

record DemographicBreakdown =
  gender :: string
  age_group :: string
  percentage_of_audience :: rat
  performance :: Engagement

record DevicePerformance = Metrics +
  device :: string
  ctr :: rat
  conversion_rate :: rat

record RegionalPerformance = Metrics +
  region :: string
  country :: string

record Campaign =
  campaign_id :: int
  name :: string
  spend :: rat
  revenue :: rat
  weekly_performance :: "WeeklyPerformance list"
  demographic_breakdown :: "DemographicBreakdown list"
  device_performance :: "DevicePerformance list option"
  regional_performance :: "RegionalPerformance list"

section \<open>Weekly view\<close>

record WeeklyTotals = Metrics +
  weekStart :: string
  weekEnd :: string

record AggregatedWeeklyPerformance = WeeklyTotals +
  ctr :: rat
  conversionRate :: rat

record LineChartDataPoint =
  label :: string
  val :: rat
  tooltipLabel :: string

record WeeklyViewResult =
  totalRevenue :: rat
  totalSpend :: rat
  avgConversionRate :: rat
  revenueChartData :: "LineChartDataPoint list"
  spendChartData :: "LineChartDataPoint list"

definition initialWeeklyResult :: WeeklyViewResult where
  "initialWeeklyResult =
     \<lparr>totalRevenue = 0, totalSpend = 0, avgConversionRate = 0,
      revenueChartData = [], spendChartData = []\<rparr>"

definition addMetrics :: "rounding \<Rightarrow> 'a Metrics_scheme \<Rightarrow> 'b Metrics_scheme \<Rightarrow> 'a Metrics_scheme" where
  "addMetrics r totals x =
     totals\<lparr>impressions := num_add r (impressions totals) (impressions x),
            clicks := num_add r (clicks totals) (clicks x),
            conversions := num_add r (conversions totals) (conversions x),
            Metrics.spend := num_add r (Metrics.spend totals) (Metrics.spend x),
            Metrics.revenue := num_add r (Metrics.revenue totals) (Metrics.revenue x)\<rparr>"

definition newWeeklyTotals :: "WeeklyPerformance \<Rightarrow> WeeklyTotals" where
  "newWeeklyTotals week =
     \<lparr>impressions = 0, clicks = 0, conversions = 0, Metrics.spend = 0, Metrics.revenue = 0,
      weekStart = week_start week, weekEnd = week_end week\<rparr>"

text \<open>
  The body of the inner \<^verbatim>\<open>forEach\<close>.  When the key names an inherited member, the test
  \<^verbatim>\<open>!weeklyMap[key]\<close> fails and the five \<^verbatim>\<open>+=\<close> write to that member: the map keeps its
  own properties.
\<close>

definition accumulateWeek :: "rounding \<Rightarrow> WeeklyTotals jsobject \<Rightarrow> WeeklyPerformance \<Rightarrow> WeeklyTotals jsobject" where
  "accumulateWeek r weeklyMap week =
     (let key = week_start week
      in case getProperty weeklyMap key of
           Own totals \<Rightarrow> AList.update key (addMetrics r totals week) weeklyMap
         | Missing \<Rightarrow> weeklyMap @ [(key, addMetrics r (newWeeklyTotals week) week)]
         | Inherited \<Rightarrow> weeklyMap)"

definition weeklyMap :: "rounding \<Rightarrow> Campaign list \<Rightarrow> WeeklyTotals jsobject" where
  "weeklyMap r campaigns =
     foldl (\<lambda>m campaign. foldl (accumulateWeek r) m (weekly_performance campaign)) [] campaigns"

definition weeklyRates :: "rounding \<Rightarrow> WeeklyTotals \<Rightarrow> AggregatedWeeklyPerformance" where
  "weeklyRates r totals =
     \<lparr>impressions = impressions totals, clicks = clicks totals, conversions = conversions totals,
      Metrics.spend = Metrics.spend totals, Metrics.revenue = Metrics.revenue totals,
      weekStart = weekStart totals, weekEnd = weekEnd totals,
      AggregatedWeeklyPerformance.ctr =
        (if 0 < impressions totals then num_div r (clicks totals) (impressions totals) else 0),
      AggregatedWeeklyPerformance.conversionRate =
        (if 0 < clicks totals then num_div r (conversions totals) (clicks totals) else 0)\<rparr>"

text \<open>
  \<open>getTime s\<close> stands for \<^verbatim>\<open>new Date(s).getTime()\<close>, \<open>None\<close> for an invalid date.
\<close>

definition finalWeeklyList ::
  "rounding \<Rightarrow> (string \<Rightarrow> rat option) \<Rightarrow> (AggregatedWeeklyPerformance list \<Rightarrow> AggregatedWeeklyPerformance list)
     \<Rightarrow> Campaign list \<Rightarrow> AggregatedWeeklyPerformance list" where
  "finalWeeklyList r getTime engine campaigns =
     sortByNumber engine (\<lambda>a. getTime (weekStart a))
       (map (weeklyRates r) (objectValues (weeklyMap r campaigns)))"

definition revenuePoint :: "AggregatedWeeklyPerformance \<Rightarrow> LineChartDataPoint" where
  "revenuePoint item =
     \<lparr>label = drop 5 (weekStart item), val = Metrics.revenue item,
      tooltipLabel = ''Revenue ('' @ weekStart item @ '' to '' @ weekEnd item @ '')''\<rparr>"

definition spendPoint :: "AggregatedWeeklyPerformance \<Rightarrow> LineChartDataPoint" where
  "spendPoint item =
     \<lparr>label = drop 5 (weekStart item), val = Metrics.spend item,
      tooltipLabel = ''Spend ('' @ weekStart item @ '' to '' @ weekEnd item @ '')''\<rparr>"

definition weeklyAggregatedData ::
  "rounding \<Rightarrow> (string \<Rightarrow> rat option) \<Rightarrow> (AggregatedWeeklyPerformance list \<Rightarrow> AggregatedWeeklyPerformance list)
     \<Rightarrow> Campaign list \<Rightarrow> WeeklyViewResult" where
  "weeklyAggregatedData r getTime engine campaigns =
     (if campaigns = [] then initialWeeklyResult
      else let final = finalWeeklyList r getTime engine campaigns;
               totalConversions = sumOf r conversions final;
               totalClicks = sumOf r clicks final
           in \<lparr>totalRevenue = sumOf r Metrics.revenue final,
               totalSpend = sumOf r Metrics.spend final,
               avgConversionRate =
                 (if 0 < totalClicks then num_div r totalConversions totalClicks else 0),
               revenueChartData = map revenuePoint final,
               spendChartData = map spendPoint final\<rparr>)"

section \<open>Demographic view\<close>

record AggregatedDemographicGroup = Metrics +
  ageGroup :: string
  gender :: string
  ctr :: rat
  conversionRate :: rat

record GenderMetrics =
  totalClicks :: rat
  totalSpend :: rat
  totalRevenue :: rat

record ChartDataPoint =
  label :: string
  val :: rat
  color :: string

text \<open>
  A table row keeps the age group and the raw numbers under the sort keys.  The five
  display strings of the source (\<^verbatim>\<open>toLocaleString\<close>, \<^verbatim>\<open>toFixed(2) + '%'\<close>) are
  renderings of the same numbers and are left to the table widget.
\<close>

record TableRow =
  ageGroup :: string
  sort_impressions :: rat
  sort_clicks :: rat
  sort_conversions :: rat
  sort_ctr :: rat
  sort_conversionRate :: rat

record AgeTotals =
  spend :: rat
  revenue :: rat

record AggregatedDataResult =
  maleMetrics :: GenderMetrics
  femaleMetrics :: GenderMetrics
  spendChart :: "ChartDataPoint list"
  revenueChart :: "ChartDataPoint list"
  maleTableData :: "TableRow list"
  femaleTableData :: "TableRow list"

definition initialMetrics :: GenderMetrics where
  "initialMetrics = \<lparr>totalClicks = 0, totalSpend = 0, totalRevenue = 0\<rparr>"

definition totalCampaignAudiencePercentage :: "rounding \<Rightarrow> Campaign \<Rightarrow> rat" where
  "totalCampaignAudiencePercentage r campaign =
     sumOf r percentage_of_audience (demographic_breakdown campaign)"

definition ratio :: "rounding \<Rightarrow> Campaign \<Rightarrow> DemographicBreakdown \<Rightarrow> rat" where
  "ratio r campaign breakdown =
     (if 0 < totalCampaignAudiencePercentage r campaign
      then num_div r (percentage_of_audience breakdown) (totalCampaignAudiencePercentage r campaign)
      else 0)"

definition distributedSpend :: "rounding \<Rightarrow> Campaign \<Rightarrow> DemographicBreakdown \<Rightarrow> rat" where
  "distributedSpend r campaign breakdown =
     num_mul r (Campaign.spend campaign) (ratio r campaign breakdown)"

definition distributedRevenue :: "rounding \<Rightarrow> Campaign \<Rightarrow> DemographicBreakdown \<Rightarrow> rat" where
  "distributedRevenue r campaign breakdown =
     num_mul r (Campaign.revenue campaign) (ratio r campaign breakdown)"

definition demographicKey :: "DemographicBreakdown \<Rightarrow> string" where
  "demographicKey breakdown =
     DemographicBreakdown.gender breakdown @ ''-'' @ age_group breakdown"

definition zeroMetrics :: Metrics where
  "zeroMetrics =
     \<lparr>impressions = 0, clicks = 0, conversions = 0, Metrics.spend = 0, Metrics.revenue = 0\<rparr>"

definition addBreakdown :: "rounding \<Rightarrow> Campaign \<Rightarrow> Metrics \<Rightarrow> DemographicBreakdown \<Rightarrow> Metrics" where
  "addBreakdown r campaign totals breakdown =
     \<lparr>impressions = num_add r (impressions totals) (impressions (performance breakdown)),
      clicks = num_add r (clicks totals) (clicks (performance breakdown)),
      conversions = num_add r (conversions totals) (conversions (performance breakdown)),
      Metrics.spend = num_add r (Metrics.spend totals) (distributedSpend r campaign breakdown),
      Metrics.revenue = num_add r (Metrics.revenue totals) (distributedRevenue r campaign breakdown)\<rparr>"

definition accumulateBreakdown ::
  "rounding \<Rightarrow> Campaign \<Rightarrow> Metrics jsobject \<Rightarrow> DemographicBreakdown \<Rightarrow> Metrics jsobject" where
  "accumulateBreakdown r campaign demographicMap breakdown =
     (let key = demographicKey breakdown
      in case getProperty demographicMap key of
           Own totals \<Rightarrow> AList.update key (addBreakdown r campaign totals breakdown) demographicMap
         | Missing \<Rightarrow> demographicMap @ [(key, addBreakdown r campaign zeroMetrics breakdown)]
         | Inherited \<Rightarrow> demographicMap)"

definition demographicMap :: "rounding \<Rightarrow> Campaign list \<Rightarrow> Metrics jsobject" where
  "demographicMap r campaigns =
     foldl (\<lambda>m campaign. foldl (accumulateBreakdown r campaign) m (demographic_breakdown campaign))
       [] campaigns"

text \<open>
  \<^verbatim>\<open>const [gender, ageGroup] = key.split('-')\<close>: the first two pieces.  A key always
  holds a hyphen, so the second piece exists; were it absent the source would bind
  \<^verbatim>\<open>undefined\<close>.
\<close>

definition destructureKey :: "string \<Rightarrow> string \<times> string" where
  "destructureKey key =
     (case split CHR ''-'' key of
        g # a # _ \<Rightarrow> (g, a)
      | [g] \<Rightarrow> (g, ''undefined'')
      | [] \<Rightarrow> (''undefined'', ''undefined''))"

definition demographicGroup :: "rounding \<Rightarrow> string \<times> Metrics \<Rightarrow> AggregatedDemographicGroup" where
  "demographicGroup r entry =
     (let key = fst entry; totals = snd entry
      in \<lparr>impressions = impressions totals, clicks = clicks totals, conversions = conversions totals,
          Metrics.spend = Metrics.spend totals, Metrics.revenue = Metrics.revenue totals,
          AggregatedDemographicGroup.ageGroup = snd (destructureKey key),
          AggregatedDemographicGroup.gender = fst (destructureKey key),
          AggregatedDemographicGroup.ctr =
            (if 0 < impressions totals then num_div r (clicks totals) (impressions totals) else 0),
          AggregatedDemographicGroup.conversionRate =
            (if 0 < clicks totals then num_div r (conversions totals) (clicks totals) else 0)\<rparr>)"

definition aggregatedList :: "rounding \<Rightarrow> Campaign list \<Rightarrow> AggregatedDemographicGroup list" where
  "aggregatedList r campaigns = map (demographicGroup r) (objectEntries (demographicMap r campaigns))"

definition maleData :: "rounding \<Rightarrow> Campaign list \<Rightarrow> AggregatedDemographicGroup list" where
  "maleData r campaigns =
     filter (\<lambda>row. AggregatedDemographicGroup.gender row = ''Male'') (aggregatedList r campaigns)"

definition femaleData :: "rounding \<Rightarrow> Campaign list \<Rightarrow> AggregatedDemographicGroup list" where
  "femaleData r campaigns =
     filter (\<lambda>row. AggregatedDemographicGroup.gender row = ''Female'') (aggregatedList r campaigns)"

definition calculateMetrics :: "rounding \<Rightarrow> AggregatedDemographicGroup list \<Rightarrow> GenderMetrics" where
  "calculateMetrics r rows =
     \<lparr>totalClicks = sumOf r clicks rows,
      totalSpend = sumOf r Metrics.spend rows,
      totalRevenue = sumOf r Metrics.revenue rows\<rparr>"

definition accumulateAge :: "rounding \<Rightarrow> AgeTotals jsobject \<Rightarrow> AggregatedDemographicGroup \<Rightarrow> AgeTotals jsobject" where
  "accumulateAge r ageDataMap row =
     (let key = AggregatedDemographicGroup.ageGroup row
      in case getProperty ageDataMap key of
           Own t \<Rightarrow> AList.update key
                      \<lparr>AgeTotals.spend = num_add r (AgeTotals.spend t) (Metrics.spend row),
                       AgeTotals.revenue = num_add r (AgeTotals.revenue t) (Metrics.revenue row)\<rparr>
                      ageDataMap
         | Missing \<Rightarrow> ageDataMap @
                      [(key, \<lparr>AgeTotals.spend = num_add r 0 (Metrics.spend row),
                              AgeTotals.revenue = num_add r 0 (Metrics.revenue row)\<rparr>)]
         | Inherited \<Rightarrow> ageDataMap)"

definition ageDataMap :: "rounding \<Rightarrow> Campaign list \<Rightarrow> AgeTotals jsobject" where
  "ageDataMap r campaigns = foldl (accumulateAge r) [] (aggregatedList r campaigns)"

text \<open>\<^verbatim>\<open>parseInt(a.split('-')[0])\<close>\<close>

definition leadingNumber :: "rounding \<Rightarrow> string \<Rightarrow> rat option" where
  "leadingNumber r a = (case split CHR ''-'' a of p # _ \<Rightarrow> parseInt r p | [] \<Rightarrow> None)"

text \<open>
  The source sorts the keys of \<^verbatim>\<open>ageDataMap\<close> and then reads \<^verbatim>\<open>ageDataMap[group]\<close> for
  each; the keys are own properties, so each read finds the entry the key came from.
  The entries are sorted here, under the same comparator on their keys.
\<close>

definition ageGroups ::
  "rounding \<Rightarrow> ((string \<times> AgeTotals) list \<Rightarrow> (string \<times> AgeTotals) list) \<Rightarrow> Campaign list
     \<Rightarrow> (string \<times> AgeTotals) list" where
  "ageGroups r engine campaigns =
     sortByNumber engine (\<lambda>p. leadingNumber r (fst p)) (objectEntries (ageDataMap r campaigns))"

definition spendBar :: "string \<times> AgeTotals \<Rightarrow> ChartDataPoint" where
  "spendBar p =
     \<lparr>ChartDataPoint.label = fst p, ChartDataPoint.val = AgeTotals.spend (snd p),
      color = ''#f87171''\<rparr>"

definition revenueBar :: "string \<times> AgeTotals \<Rightarrow> ChartDataPoint" where
  "revenueBar p =
     \<lparr>ChartDataPoint.label = fst p, ChartDataPoint.val = AgeTotals.revenue (snd p),
      color = ''#4ade80''\<rparr>"

definition formatTableData :: "AggregatedDemographicGroup list \<Rightarrow> TableRow list" where
  "formatTableData rows =
     map (\<lambda>row. \<lparr>TableRow.ageGroup = AggregatedDemographicGroup.ageGroup row,
                 sort_impressions = impressions row, sort_clicks = clicks row,
                 sort_conversions = conversions row,
                 sort_ctr = AggregatedDemographicGroup.ctr row,
                 sort_conversionRate = AggregatedDemographicGroup.conversionRate row\<rparr>) rows"

definition demographicAggregatedData ::
  "rounding \<Rightarrow> ((string \<times> AgeTotals) list \<Rightarrow> (string \<times> AgeTotals) list) \<Rightarrow> Campaign list
     \<Rightarrow> AggregatedDataResult" where
  "demographicAggregatedData r engine campaigns =
     (if campaigns = []
      then \<lparr>maleMetrics = initialMetrics, femaleMetrics = initialMetrics,
            spendChart = [], revenueChart = [], maleTableData = [], femaleTableData = []\<rparr>
      else \<lparr>maleMetrics = calculateMetrics r (maleData r campaigns),
            femaleMetrics = calculateMetrics r (femaleData r campaigns),
            spendChart = map spendBar (ageGroups r engine campaigns),
            revenueChart = map revenueBar (ageGroups r engine campaigns),
            maleTableData = formatTableData (maleData r campaigns),
            femaleTableData = formatTableData (femaleData r campaigns)\<rparr>)"

section \<open>Device view\<close>

record AggregatedDeviceData =
  device :: string
  total_impressions :: rat
  total_clicks :: rat
  total_conversions :: rat
  total_spend :: rat
  total_revenue :: rat
  average_ctr :: rat
  average_conversion_rate :: rat

text \<open>
  \<^verbatim>\<open>parseFloat(x.toFixed(2))\<close>.  \<^verbatim>\<open>toFixed(2)\<close> writes the sign apart and picks the integer
  \<open>n\<close> with \<open>n / 100\<close> nearest to \<open>\<bar>x\<bar>\<close>, the larger one on a tie; from \<open>10 ^ 21\<close> on it
  prints the number itself.  \<^verbatim>\<open>parseFloat\<close> reads the digits back as a number.
\<close>

definition toFixed2 :: "rat \<Rightarrow> rat" where
  "toFixed2 x =
     (if 10 ^ 21 \<le> \<bar>x\<bar> then x
      else if x < 0 then - (of_int \<lfloor>\<bar>x\<bar> * 100 + 1 / 2\<rfloor> / 100)
      else of_int \<lfloor>x * 100 + 1 / 2\<rfloor> / 100)"

definition parseFloat_toFixed2 :: "rounding \<Rightarrow> rat \<Rightarrow> rat" where
  "parseFloat_toFixed2 r x = r (toFixed2 x)"

definition initialDeviceMap :: "(string \<times> Metrics) list" where
  "initialDeviceMap = [(''Mobile'', zeroMetrics), (''Desktop'', zeroMetrics)]"

text \<open>\<^verbatim>\<open>stat.device ? stat.device.trim() : ''\<close>\<close>

definition deviceKey :: "DevicePerformance \<Rightarrow> string" where
  "deviceKey stat =
     (if DevicePerformance.device stat = [] then [] else trim (DevicePerformance.device stat))"

text \<open>
  The \<^verbatim>\<open>Map\<close> holds the two entries from the start, Mobile first; a recognised record
  updates the totals of its entry in place.
\<close>

definition accumulateDevice ::
  "rounding \<Rightarrow> (string \<times> Metrics) list \<Rightarrow> DevicePerformance \<Rightarrow> (string \<times> Metrics) list" where
  "accumulateDevice r aggregatedDataMap stat =
     (if deviceKey stat = ''Mobile'' \<or> deviceKey stat = ''Desktop''
      then map (\<lambda>entry. if fst entry = deviceKey stat
                         then (fst entry, addMetrics r (snd entry) stat) else entry)
             aggregatedDataMap
      else aggregatedDataMap)"

definition aggregatedDataMap :: "rounding \<Rightarrow> Campaign list \<Rightarrow> (string \<times> Metrics) list" where
  "aggregatedDataMap r campaigns =
     foldl (\<lambda>m campaign.
              case device_performance campaign of
                None \<Rightarrow> m
              | Some stats \<Rightarrow> foldl (accumulateDevice r) m stats)
       initialDeviceMap campaigns"

definition deviceResult :: "rounding \<Rightarrow> string \<times> Metrics \<Rightarrow> AggregatedDeviceData list" where
  "deviceResult r entry =
     (let device = fst entry; data = snd entry
      in if 0 < impressions data \<or> 0 < clicks data \<or> 0 < conversions data
         then [\<lparr>AggregatedDeviceData.device = device,
                total_impressions = impressions data,
                total_clicks = clicks data,
                total_conversions = conversions data,
                total_spend = parseFloat_toFixed2 r (Metrics.spend data),
                total_revenue = parseFloat_toFixed2 r (Metrics.revenue data),
                average_ctr = parseFloat_toFixed2 r
                  (if 0 < impressions data
                   then num_mul r (num_div r (clicks data) (impressions data)) 100 else 0),
                average_conversion_rate = parseFloat_toFixed2 r
                  (if 0 < clicks data
                   then num_mul r (num_div r (conversions data) (clicks data)) 100 else 0)\<rparr>]
         else [])"

definition restructureDevicePerformance :: "rounding \<Rightarrow> Campaign list \<Rightarrow> AggregatedDeviceData list" where
  "restructureDevicePerformance r campaigns =
     (if campaigns = [] then []
      else concat (map (deviceResult r) (aggregatedDataMap r campaigns)))"

text \<open>
  The comparison the page computes when both devices were found; \<open>None\<close> is the branch
  that shows the missing-device warning instead.
\<close>

record DeviceComparison =
  revenueComparison :: rat
  combinedRevenue :: rat
  mobileRevenuePercent :: rat
  deltaBaseRevenue :: rat
  deltaPercent :: rat
  isMobileLeader :: bool

definition compareDevices :: "rounding \<Rightarrow> AggregatedDeviceData \<Rightarrow> AggregatedDeviceData \<Rightarrow> DeviceComparison" where
  "compareDevices r mobileData desktopData =
     (let revenueComparison = num_sub r (total_revenue mobileData) (total_revenue desktopData);
          totalRevenue = num_add r (total_revenue mobileData) (total_revenue desktopData);
          deltaBaseRevenue = (if total_revenue desktopData = 0 then 1 else total_revenue desktopData)
      in \<lparr>revenueComparison = revenueComparison,
          combinedRevenue = totalRevenue,
          mobileRevenuePercent =
            (if 0 < totalRevenue
             then num_mul r (num_div r (total_revenue mobileData) totalRevenue) 100 else 0),
          deltaBaseRevenue = deltaBaseRevenue,
          deltaPercent = num_mul r (num_div r \<bar>revenueComparison\<bar> deltaBaseRevenue) 100,
          isMobileLeader = (total_revenue desktopData < total_revenue mobileData)\<rparr>)"

definition deviceComparison :: "rounding \<Rightarrow> AggregatedDeviceData list \<Rightarrow> DeviceComparison option" where
  "deviceComparison r deviceData =
     (case List.find (\<lambda>d. AggregatedDeviceData.device d = ''Mobile'') deviceData of
        None \<Rightarrow> None
      | Some mobileData \<Rightarrow>
          (case List.find (\<lambda>d. AggregatedDeviceData.device d = ''Desktop'') deviceData of
             None \<Rightarrow> None
           | Some desktopData \<Rightarrow> Some (compareDevices r mobileData desktopData)))"

section \<open>Region view\<close>

record GeoPosition =
  lat :: rat
  lon :: rat
  color :: string

definition REGION_COORDINATES :: "GeoPosition jsobject" where
  "REGION_COORDINATES =
     [(''Abu Dhabi'', \<lparr>lat = 24.466667, lon = 54.366669, color = ''#f87171''\<rparr>),
      (''Dubai'', \<lparr>lat = 25.276987, lon = 55.296249, color = ''#f87171''\<rparr>),
      (''Sharjah'', \<lparr>lat = 25.357125, lon = 55.405167, color = ''#f87171''\<rparr>),
      (''Riyadh'', \<lparr>lat = 24.713552, lon = 46.675296, color = ''#f87171''\<rparr>),
      (''Doha'', \<lparr>lat = 25.2854, lon = 51.5310, color = ''#f87171''\<rparr>),
      (''Kuwait City'', \<lparr>lat = 29.3759, lon = 47.9774, color = ''#f87171''\<rparr>),
      (''Manama'', \<lparr>lat = 26.2285, lon = 50.5860, color = ''#f87171''\<rparr>),
      (''New York'', \<lparr>lat = 40.712776, lon = - 74.005974, color = ''#4ade80''\<rparr>),
      (''California'', \<lparr>lat = 36.778259, lon = - 119.417931, color = ''#4ade80''\<rparr>),
      (''Toronto'', \<lparr>lat = 43.6532, lon = - 79.3832, color = ''#4ade80''\<rparr>),
      (''London'', \<lparr>lat = 51.507351, lon = - 0.127758, color = ''#fbbf24''\<rparr>),
      (''Paris'', \<lparr>lat = 48.856613, lon = 2.352222, color = ''#fbbf24''\<rparr>),
      (''Berlin'', \<lparr>lat = 52.520008, lon = 13.404954, color = ''#fbbf24''\<rparr>),
      (''Singapore'', \<lparr>lat = 1.352083, lon = 103.819836, color = ''#60a5fa''\<rparr>),
      (''Tokyo'', \<lparr>lat = 35.689487, lon = 139.691711, color = ''#60a5fa''\<rparr>),
      (''Cairo'', \<lparr>lat = 30.033333, lon = 31.233334, color = ''#a78bfa''\<rparr>)]"

text \<open>
  \<^verbatim>\<open>REGION_COORDINATES[region] || { lat: 0, lon: 0, color: '#94a3b8' }\<close>.  A region named
  like an inherited member gets that member, which is truthy and has no \<^verbatim>\<open>lat\<close>,
  \<^verbatim>\<open>lon\<close> or \<^verbatim>\<open>color\<close>: the result is then \<open>None\<close>, and its fields read \<^verbatim>\<open>undefined\<close>.
\<close>

definition fallbackPosition :: GeoPosition where
  "fallbackPosition = \<lparr>lat = 0, lon = 0, color = ''#94a3b8''\<rparr>"

definition getCoordinates :: "string \<Rightarrow> GeoPosition option" where
  "getCoordinates regionName =
     (case getProperty REGION_COORDINATES regionName of
        Own pos \<Rightarrow> Some pos
      | Missing \<Rightarrow> Some fallbackPosition
      | Inherited \<Rightarrow> None)"

record AggregatedRegionalPerformance = RegionalPerformance +
  roas :: rat
  cpa :: rat
  cpc :: rat
  ctr :: rat
  conversionRate :: rat
  latitude :: "rat option"
  longitude :: "rat option"

record BubbleMapDataPoint =
  region :: string
  country :: string
  val :: rat
  color :: string
  latitude :: "rat option"
  longitude :: "rat option"

record RegionViewResult =
  totalRevenue :: rat
  totalSpend :: rat
  averageRoas :: rat
  topRegion :: string
  revenueMapData :: "BubbleMapDataPoint list"
  spendMapData :: "BubbleMapDataPoint list"

definition initialRegionResult :: RegionViewResult where
  "initialRegionResult =
     \<lparr>RegionViewResult.totalRevenue = 0, RegionViewResult.totalSpend = 0, averageRoas = 0,
      topRegion = ''N/A'', revenueMapData = [], spendMapData = []\<rparr>"

definition regionKey :: "RegionalPerformance \<Rightarrow> string" where
  "regionKey rec = RegionalPerformance.region rec @ ''-'' @ RegionalPerformance.country rec"

definition newRegionalTotals :: "RegionalPerformance \<Rightarrow> AggregatedRegionalPerformance" where
  "newRegionalTotals rec =
     (let pos = getCoordinates (RegionalPerformance.region rec)
      in \<lparr>impressions = 0, clicks = 0, conversions = 0, Metrics.spend = 0, Metrics.revenue = 0,
          RegionalPerformance.region = RegionalPerformance.region rec,
          RegionalPerformance.country = RegionalPerformance.country rec,
          roas = 0, cpa = 0, cpc = 0,
          AggregatedRegionalPerformance.ctr = 0,
          AggregatedRegionalPerformance.conversionRate = 0,
          AggregatedRegionalPerformance.latitude = map_option lat pos,
          AggregatedRegionalPerformance.longitude = map_option lon pos\<rparr>)"

definition accumulateRegion ::
  "rounding \<Rightarrow> AggregatedRegionalPerformance jsobject \<Rightarrow> RegionalPerformance
     \<Rightarrow> AggregatedRegionalPerformance jsobject" where
  "accumulateRegion r regionalMap rec =
     (let key = regionKey rec
      in case getProperty regionalMap key of
           Own totals \<Rightarrow> AList.update key (addMetrics r totals rec) regionalMap
         | Missing \<Rightarrow> regionalMap @ [(key, addMetrics r (newRegionalTotals rec) rec)]
         | Inherited \<Rightarrow> regionalMap)"

definition regionalMap :: "rounding \<Rightarrow> Campaign list \<Rightarrow> AggregatedRegionalPerformance jsobject" where
  "regionalMap r campaigns =
     foldl (\<lambda>m campaign. foldl (accumulateRegion r) m (regional_performance campaign)) [] campaigns"

definition regionalRates :: "rounding \<Rightarrow> AggregatedRegionalPerformance \<Rightarrow> AggregatedRegionalPerformance" where
  "regionalRates r totals =
     totals\<lparr>AggregatedRegionalPerformance.ctr :=
              (if 0 < impressions totals then num_div r (clicks totals) (impressions totals) else 0),
            AggregatedRegionalPerformance.conversionRate :=
              (if 0 < clicks totals then num_div r (conversions totals) (clicks totals) else 0),
            cpc := (if 0 < clicks totals then num_div r (Metrics.spend totals) (clicks totals) else 0),
            cpa := (if 0 < conversions totals
                    then num_div r (Metrics.spend totals) (conversions totals) else 0),
            roas := (if 0 < Metrics.spend totals
                     then num_div r (Metrics.revenue totals) (Metrics.spend totals) else 0)\<rparr>"

definition hasCoordinates :: "AggregatedRegionalPerformance \<Rightarrow> bool" where
  "hasCoordinates item =
     (AggregatedRegionalPerformance.latitude item \<noteq> Some 0
      \<or> AggregatedRegionalPerformance.longitude item \<noteq> Some 0)"

definition finalRegionalList :: "rounding \<Rightarrow> Campaign list \<Rightarrow> AggregatedRegionalPerformance list" where
  "finalRegionalList r campaigns =
     filter hasCoordinates (map (regionalRates r) (objectValues (regionalMap r campaigns)))"

text \<open>
  \<^verbatim>\<open>finalRegionalList.sort((a, b) => b.revenue - a.revenue)\<close> reorders the list in place,
  after the totals were taken: stable, by descending revenue.
\<close>

definition sortedRegionalList :: "rounding \<Rightarrow> Campaign list \<Rightarrow> AggregatedRegionalPerformance list" where
  "sortedRegionalList r campaigns = sort_key (\<lambda>a. - Metrics.revenue a) (finalRegionalList r campaigns)"

definition bubbleColor :: "string \<Rightarrow> string" where
  "bubbleColor regionName =
     (case getCoordinates regionName of
        None \<Rightarrow> ''#94a3b8''
      | Some pos \<Rightarrow> if GeoPosition.color pos = [] then ''#94a3b8'' else GeoPosition.color pos)"

definition revenueBubble :: "AggregatedRegionalPerformance \<Rightarrow> BubbleMapDataPoint" where
  "revenueBubble item =
     \<lparr>BubbleMapDataPoint.region = RegionalPerformance.region item,
      BubbleMapDataPoint.country = RegionalPerformance.country item,
      BubbleMapDataPoint.val = Metrics.revenue item,
      BubbleMapDataPoint.color = bubbleColor (RegionalPerformance.region item),
      BubbleMapDataPoint.latitude = AggregatedRegionalPerformance.latitude item,
      BubbleMapDataPoint.longitude = AggregatedRegionalPerformance.longitude item\<rparr>"

definition spendBubble :: "AggregatedRegionalPerformance \<Rightarrow> BubbleMapDataPoint" where
  "spendBubble item =
     \<lparr>BubbleMapDataPoint.region = RegionalPerformance.region item,
      BubbleMapDataPoint.country = RegionalPerformance.country item,
      BubbleMapDataPoint.val = Metrics.spend item,
      BubbleMapDataPoint.color = bubbleColor (RegionalPerformance.region item),
      BubbleMapDataPoint.latitude = AggregatedRegionalPerformance.latitude item,
      BubbleMapDataPoint.longitude = AggregatedRegionalPerformance.longitude item\<rparr>"

definition regionAggregatedData :: "rounding \<Rightarrow> Campaign list \<Rightarrow> RegionViewResult" where
  "regionAggregatedData r campaigns =
     (if campaigns = [] then initialRegionResult
      else let final = finalRegionalList r campaigns;
               ranked = sortedRegionalList r campaigns
           in \<lparr>RegionViewResult.totalRevenue = sumOf r Metrics.revenue final,
               RegionViewResult.totalSpend = sumOf r Metrics.spend final,
               averageRoas =
                 (if 0 < length final then num_div r (sumOf r roas final) (of_nat (length final))
                  else 0),
               topRegion =
                 (case ranked of
                    [] \<Rightarrow> ''N/A''
                  | best # _ \<Rightarrow> if RegionalPerformance.region best = [] then ''N/A''
                               else RegionalPerformance.region best),
               revenueMapData = map revenueBubble ranked,
               spendMapData = map spendBubble ranked\<rparr>)"

section \<open>Vocabulary of the properties, and sample inputs\<close>

text \<open>A device record the aggregation counts, and a campaign with the others removed.\<close>

definition isRecognised :: "DevicePerformance \<Rightarrow> bool" where
  "isRecognised stat = (deviceKey stat = ''Mobile'' \<or> deviceKey stat = ''Desktop'')"

definition withoutOtherDevices :: "Campaign \<Rightarrow> Campaign" where
  "withoutOtherDevices campaign =
     campaign\<lparr>device_performance := map_option (filter isRecognised) (device_performance campaign)\<rparr>"

text \<open>\<open>y\<close> has at most two decimals and lies within half a hundredth of \<open>x\<close>.\<close>

definition roundedTo2Decimals :: "rat \<Rightarrow> rat \<Rightarrow> bool" where
  "roundedTo2Decimals x y = (of_int \<lfloor>y * 100\<rfloor> = y * 100 \<and> \<bar>y - x\<bar> \<le> 1 / 200)"

definition emptyCampaign :: Campaign where
  "emptyCampaign =
     \<lparr>campaign_id = 1, name = ''Sample'', Campaign.spend = 0, Campaign.revenue = 0,
      weekly_performance = [], demographic_breakdown = [], device_performance = None,
      regional_performance = []\<rparr>"

definition deviceStat :: "string \<Rightarrow> rat \<Rightarrow> rat \<Rightarrow> rat \<Rightarrow> rat \<Rightarrow> rat \<Rightarrow> DevicePerformance" where
  "deviceStat d i c v s rv =
     \<lparr>impressions = i, clicks = c, conversions = v, Metrics.spend = s, Metrics.revenue = rv,
      DevicePerformance.device = d, DevicePerformance.ctr = 0, conversion_rate = 0\<rparr>"

definition deviceSample :: "Campaign list" where
  "deviceSample =
     [emptyCampaign\<lparr>device_performance :=
        Some [deviceStat ''Mobile'' 100 10 1 10.005 30,
              deviceStat ''Tablet'' 50 5 1 7 9,
              deviceStat '' Desktop '' 300 7 0 2.5 0,
              deviceStat ''mobile'' 1 1 1 1 1]\<rparr>,
      emptyCampaign,
      emptyCampaign\<lparr>device_performance := Some [deviceStat ''Mobile'' 20 2 1 1.001 0.004]\<rparr>]"

definition deviceSampleBoth :: "Campaign list" where
  "deviceSampleBoth =
     deviceSample @ [emptyCampaign\<lparr>device_performance := Some [deviceStat ''Desktop'' 1 1 1 1 20]\<rparr>]"

text \<open>What \<^verbatim>\<open>new Date(s).getTime()\<close> gives on the dates of the samples (milliseconds, UTC).\<close>

definition sampleGetTime :: "string \<Rightarrow> rat option" where
  "sampleGetTime s =
     (if s = ''2024-01-01'' then Some 1704067200000
      else if s = ''2024-01-08'' then Some 1704672000000
      else if s = ''2024-01-15'' then Some 1705276800000
      else None)"

definition weekRecord :: "string \<Rightarrow> string \<Rightarrow> rat \<Rightarrow> rat \<Rightarrow> rat \<Rightarrow> rat \<Rightarrow> rat \<Rightarrow> WeeklyPerformance" where
  "weekRecord s e i c v sp rv =
     \<lparr>impressions = i, clicks = c, conversions = v, Metrics.spend = sp, Metrics.revenue = rv,
      week_start = s, week_end = e\<rparr>"

definition weeklySample :: "Campaign list" where
  "weeklySample =
     [emptyCampaign\<lparr>weekly_performance :=
        [weekRecord ''2024-01-08'' ''2024-01-14'' 1000 60 6 100 150,
         weekRecord ''2024-01-01'' ''2024-01-07'' 100 10 5 100 300]\<rparr>,
      emptyCampaign\<lparr>weekly_performance :=
        [weekRecord ''2024-01-08'' ''2024-01-14'' 500 30 3 50 75]\<rparr>]"

definition regionRecord :: "string \<Rightarrow> string \<Rightarrow> rat \<Rightarrow> rat \<Rightarrow> rat \<Rightarrow> rat \<Rightarrow> rat \<Rightarrow> RegionalPerformance" where
  "regionRecord rg co i c v sp rv =
     \<lparr>impressions = i, clicks = c, conversions = v, Metrics.spend = sp, Metrics.revenue = rv,
      RegionalPerformance.region = rg, RegionalPerformance.country = co\<rparr>"

definition regionSample :: "Campaign list" where
  "regionSample =
     [emptyCampaign\<lparr>regional_performance :=
        [regionRecord ''Atlantis'' ''Nowhere'' 100 10 1 100 1000,
         regionRecord ''Dubai'' ''UAE'' 100 10 1 10 20]\<rparr>,
      emptyCampaign\<lparr>regional_performance :=
        [regionRecord ''Cairo'' ''Egypt'' 100 10 1 30 30,
         regionRecord ''Atlantis'' ''Nowhere'' 100 10 1 1 1]\<rparr>]"

text \<open>
  An entry of the regional map is keyed by the region and country it carries, and its
  coordinates are those the geo lookup gives for its region.
\<close>

definition enriched :: "string \<times> AggregatedRegionalPerformance \<Rightarrow> bool" where
  "enriched entry =
     (fst entry = RegionalPerformance.region (snd entry) @ ''-'' @ RegionalPerformance.country (snd entry)
      \<and> AggregatedRegionalPerformance.latitude (snd entry)
          = map_option lat (getCoordinates (RegionalPerformance.region (snd entry)))
      \<and> AggregatedRegionalPerformance.longitude (snd entry)
          = map_option lon (getCoordinates (RegionalPerformance.region (snd entry))))"

text \<open>Counts that are not negative, in one record and in all records of a campaign.\<close>

definition nonNegative :: "'a Engagement_scheme \<Rightarrow> bool" where
  "nonNegative x = (0 \<le> impressions x \<and> 0 \<le> clicks x \<and> 0 \<le> conversions x)"

definition nonNegativeCounts :: "Campaign \<Rightarrow> bool" where
  "nonNegativeCounts campaign =
     (list_all nonNegative (weekly_performance campaign)
      \<and> list_all (\<lambda>breakdown. nonNegative (performance breakdown)) (demographic_breakdown campaign)
      \<and> (case device_performance campaign of None \<Rightarrow> True | Some stats \<Rightarrow> list_all nonNegative stats)
      \<and> list_all nonNegative (regional_performance campaign))"

text \<open>
  A rate \<open>q\<close> of a numerator over a denominator: not negative, 0 when the denominator is
  0, and at most \<open>limit\<close> when the numerator does not exceed the denominator.
\<close>

definition rateWithin :: "rat \<Rightarrow> rat \<Rightarrow> rat \<Rightarrow> rat \<Rightarrow> bool" where
  "rateWithin limit numerator denominator q =
     (0 \<le> q \<and> (denominator = 0 \<longrightarrow> q = 0) \<and> (numerator \<le> denominator \<longrightarrow> q \<le> limit))"

definition breakdown :: "string \<Rightarrow> string \<Rightarrow> rat \<Rightarrow> rat \<Rightarrow> rat \<Rightarrow> rat \<Rightarrow> DemographicBreakdown" where
  "breakdown g a p i c v =
     \<lparr>DemographicBreakdown.gender = g, age_group = a, percentage_of_audience = p,
      performance = \<lparr>impressions = i, clicks = c, conversions = v\<rparr>\<rparr>"

definition splitCampaign :: Campaign where
  "splitCampaign =
     emptyCampaign\<lparr>Campaign.spend := 200, Campaign.revenue := 400,
       demographic_breakdown :=
         [breakdown ''Male'' ''25-34'' 30 1000 50 5, breakdown ''Female'' ''18-24'' 70 2000 40 10]\<rparr>"

definition noAudienceCampaign :: Campaign where
  "noAudienceCampaign =
     emptyCampaign\<lparr>Campaign.spend := 50, Campaign.revenue := 80,
       demographic_breakdown :=
         [breakdown ''Male'' ''18-24'' 0 100 10 1, breakdown ''Female'' ''18-24'' 0 300 0 0]\<rparr>"


definition conversionSample :: "Campaign list" where
  "conversionSample =
     [emptyCampaign\<lparr>weekly_performance :=
        [weekRecord ''2024-01-01'' ''2024-01-07'' 1000 10 15 100 300]\<rparr>]"

definition fullSample :: "Campaign list" where
  "fullSample = weeklySample @ regionSample @ deviceSample @ [splitCampaign, noAudienceCampaign]"

text \<open>
  The five totals of \<open>t\<close> are the running sums of the records \<open>recs\<close>, taken in order
  from 0 with the additions of the source.
\<close>

definition accumulatedOver :: "rounding \<Rightarrow> 'a Metrics_scheme list \<Rightarrow> 'b Metrics_scheme \<Rightarrow> bool" where
  "accumulatedOver r recs t =
     (impressions t = sumOf r impressions recs
      \<and> clicks t = sumOf r clicks recs
      \<and> conversions t = sumOf r conversions recs
      \<and> Metrics.spend t = sumOf r Metrics.spend recs
      \<and> Metrics.revenue t = sumOf r Metrics.revenue recs)"

text \<open>All regional records of a campaign list, in the order the loops visit them.\<close>

definition regionalRecords :: "Campaign list \<Rightarrow> RegionalPerformance list" where
  "regionalRecords campaigns = concat (map regional_performance campaigns)"

section \<open>Properties\<close>

subsection \<open>Evaluating floors of rational numerals\<close>

lemma floor_rat_numeral [simp]: "\<lfloor>numeral a / numeral b :: rat\<rfloor> = numeral a div numeral b"
  using floor_divide_of_int_eq[of "numeral a" "numeral b", where 'a = rat] by simp

lemma floor_rat_one [simp]: "\<lfloor>1 / numeral b :: rat\<rfloor> = 1 div numeral b"
  using floor_divide_of_int_eq[of 1 "numeral b", where 'a = rat] by simp

lemma floor_rat_minus_numeral [simp]:
  "\<lfloor>- (numeral a / numeral b) :: rat\<rfloor> = - numeral a div numeral b"
  using floor_divide_of_int_eq[of "- numeral a" "numeral b", where 'a = rat] by simp

subsection \<open>Device view\<close>

lemma accumulateDevice_keys: "map fst (accumulateDevice r m stat) = map fst m"
  by (simp add: accumulateDevice_def comp_def)

lemma foldl_accumulateDevice_keys: "map fst (foldl (accumulateDevice r) m stats) = map fst m"
  by (induction stats arbitrary: m) (simp_all add: accumulateDevice_keys)

lemma aggregatedDataMap_keys: "map fst (aggregatedDataMap r campaigns) = [''Mobile'', ''Desktop'']"
proof -
  have "map fst (foldl (\<lambda>m campaign. case device_performance campaign of None \<Rightarrow> m
            | Some stats \<Rightarrow> foldl (accumulateDevice r) m stats) m campaigns) = map fst m" for m
    by (induction campaigns arbitrary: m) (simp_all add: foldl_accumulateDevice_keys split: option.splits)
  then show ?thesis
    by (simp add: aggregatedDataMap_def initialDeviceMap_def)
qed

lemma aggregatedDataMap_shape:
  "\<exists>mobile desktop. aggregatedDataMap r campaigns = [(''Mobile'', mobile), (''Desktop'', desktop)]"
proof -
  have "map fst (aggregatedDataMap r campaigns) = [''Mobile'', ''Desktop'']"
    by (rule aggregatedDataMap_keys)
  then show ?thesis
    by (cases "aggregatedDataMap r campaigns"; cases "tl (aggregatedDataMap r campaigns)") auto
qed

lemma deviceResult_cases:
  "deviceResult r (k, t) = [] \<or> (\<exists>g. deviceResult r (k, t) = [g] \<and> AggregatedDeviceData.device g = k)"
  by (auto simp: deviceResult_def Let_def)

lemma deviceResult_member:
  assumes "g \<in> set (deviceResult r (k, t))"
  shows "AggregatedDeviceData.device g = k"
    and "total_impressions g = impressions t"
    and "total_clicks g = clicks t"
    and "total_conversions g = conversions t"
    and "\<not> (impressions t = 0 \<and> clicks t = 0 \<and> conversions t = 0)"
    and "total_spend g = r (toFixed2 (Metrics.spend t))"
    and "total_revenue g = r (toFixed2 (Metrics.revenue t))"
    and "average_ctr g =
           r (toFixed2 (if 0 < impressions t then r (r (clicks t / impressions t) * 100) else 0))"
    and "average_conversion_rate g =
           r (toFixed2 (if 0 < clicks t then r (r (conversions t / clicks t) * 100) else 0))"
  using assms
  by (auto simp: deviceResult_def Let_def parseFloat_toFixed2_def num_mul_def num_div_def
      split: if_splits)

lemma restructure_member:
  assumes "g \<in> set (restructureDevicePerformance r campaigns)"
  shows "\<exists>t. (AggregatedDeviceData.device g, t) \<in> set (aggregatedDataMap r campaigns)
           \<and> g \<in> set (deviceResult r (AggregatedDeviceData.device g, t))"
proof -
  from assms obtain k t where kt: "(k, t) \<in> set (aggregatedDataMap r campaigns)"
    and g: "g \<in> set (deviceResult r (k, t))"
    by (auto simp: restructureDevicePerformance_def split: if_splits)
  from g have "AggregatedDeviceData.device g = k" by (rule deviceResult_member(1))
  with kt g show ?thesis by auto
qed

text \<open>An unrecognised record leaves the map as it is.\<close>

lemma accumulateDevice_other: "\<not> isRecognised stat \<Longrightarrow> accumulateDevice r m stat = m"
  by (simp add: accumulateDevice_def isRecognised_def)

lemma foldl_accumulateDevice_filter:
  "foldl (accumulateDevice r) m (filter isRecognised stats) = foldl (accumulateDevice r) m stats"
  by (induction stats arbitrary: m) (simp_all add: accumulateDevice_other)

lemma aggregatedDataMap_withoutOtherDevices:
  "aggregatedDataMap r (map withoutOtherDevices campaigns) = aggregatedDataMap r campaigns"
proof -
  have "foldl (\<lambda>m campaign. case device_performance campaign of None \<Rightarrow> m
            | Some stats \<Rightarrow> foldl (accumulateDevice r) m stats) m (map withoutOtherDevices campaigns)
        = foldl (\<lambda>m campaign. case device_performance campaign of None \<Rightarrow> m
            | Some stats \<Rightarrow> foldl (accumulateDevice r) m stats) m campaigns" for m
    by (induction campaigns arbitrary: m)
      (simp_all add: withoutOtherDevices_def foldl_accumulateDevice_filter split: option.splits)
  then show ?thesis by (simp add: aggregatedDataMap_def)
qed

lemma toFixed2_rounds:
  assumes "\<bar>x\<bar> < 10 ^ 21 \<or> of_int \<lfloor>x\<rfloor> = x"
  shows "roundedTo2Decimals x (toFixed2 x)"
proof (cases "10 ^ 21 \<le> \<bar>x\<bar>")
  case True
  then have "\<not> \<bar>x\<bar> < 10 ^ 21" by simp
  with assms have int: "of_int \<lfloor>x\<rfloor> = x" by blast
  then obtain n :: int where n: "x = of_int n" by metis
  have "of_int n * (100 :: rat) = of_int (n * 100)" by simp
  then have "of_int \<lfloor>x * 100\<rfloor> = x * 100" unfolding n by (simp only: floor_of_int)
  with True show ?thesis by (simp add: roundedTo2Decimals_def toFixed2_def)
next
  case False
  have near: "\<bar>of_int \<lfloor>y * 100 + 1 / 2\<rfloor> / 100 - y\<bar> \<le> 1 / 200" for y :: rat
  proof -
    define n where "n = \<lfloor>y * 100 + 1 / 2\<rfloor>"
    have "of_int n \<le> y * 100 + 1 / 2" and "y * 100 + 1 / 2 < of_int n + 1"
      unfolding n_def by linarith+
    then have "\<bar>of_int n / 100 - y\<bar> \<le> 1 / 200"
      by linarith
    then show ?thesis by (simp only: n_def)
  qed
  have hundredths: "of_int \<lfloor>(of_int n / 100 :: rat) * 100\<rfloor> = (of_int n / 100 :: rat) * 100" for n :: int
  proof -
    have "(of_int n / 100 :: rat) * 100 = of_int n" by simp
    then show ?thesis by (simp only: floor_of_int)
  qed
  show ?thesis
  proof (cases "x < 0")
    case True
    define n where "n = \<lfloor>\<bar>x\<bar> * 100 + 1 / 2\<rfloor>"
    have tf: "toFixed2 x = of_int (- n) / 100"
      using True \<open>\<not> 10 ^ 21 \<le> \<bar>x\<bar>\<close> by (simp add: toFixed2_def n_def)
    have close: "\<bar>of_int n / 100 - \<bar>x\<bar>\<bar> \<le> 1 / 200"
      using near[of "\<bar>x\<bar>"] by (simp only: n_def)
    have "of_int (- n) / 100 - x = - (of_int n / 100 - \<bar>x\<bar>)"
      using True by simp
    with close have "\<bar>of_int (- n) / 100 - x\<bar> \<le> 1 / 200"
      by (simp only: abs_minus_cancel)
    with hundredths[of "- n"] show ?thesis
      unfolding roundedTo2Decimals_def tf by blast
  next
    case False
    define n where "n = \<lfloor>x * 100 + 1 / 2\<rfloor>"
    have tf: "toFixed2 x = of_int n / 100"
      using False \<open>\<not> 10 ^ 21 \<le> \<bar>x\<bar>\<close> by (simp add: toFixed2_def n_def)
    have "\<bar>of_int n / 100 - x\<bar> \<le> 1 / 200"
      using near[of x] by (simp only: n_def)
    with hundredths[of n] show ?thesis
      unfolding roundedTo2Decimals_def tf by blast
  qed
qed

text \<open>
  Claim C9.  The device list has at most two entries, at most one per device, and Mobile
  comes before Desktop: the devices of the list, in order, are one of the four
  sequences below.
\<close>

theorem device_list_shape:
  "map AggregatedDeviceData.device (restructureDevicePerformance r campaigns) = []
   \<or> map AggregatedDeviceData.device (restructureDevicePerformance r campaigns) = [''Mobile'']
   \<or> map AggregatedDeviceData.device (restructureDevicePerformance r campaigns) = [''Desktop'']
   \<or> map AggregatedDeviceData.device (restructureDevicePerformance r campaigns)
        = [''Mobile'', ''Desktop'']"
proof -
  obtain mobile desktop
    where m: "aggregatedDataMap r campaigns = [(''Mobile'', mobile), (''Desktop'', desktop)]"
    using aggregatedDataMap_shape by blast
  show ?thesis
    using deviceResult_cases[of r "''Mobile''" mobile] deviceResult_cases[of r "''Desktop''" desktop]
    by (auto simp: restructureDevicePerformance_def m)
qed

theorem device_list_shape_witness:
  "map AggregatedDeviceData.device (restructureDevicePerformance exact deviceSample)
     = [''Mobile'', ''Desktop'']"
  using device_list_shape[of exact deviceSample] by code_simp

text \<open>
  Claim C5.  Every group of the device list is named exactly Mobile or Desktop and has
  an impression, click or conversion count that is not zero, the count accumulated for its
  device; and removing every record whose trimmed device string is neither of the two
  changes nothing in the list.
\<close>

theorem device_groups_recognised:
  "(\<forall>g \<in> set (restructureDevicePerformance r campaigns).
      (AggregatedDeviceData.device g = ''Mobile'' \<or> AggregatedDeviceData.device g = ''Desktop'')
      \<and> (\<exists>t. (AggregatedDeviceData.device g, t) \<in> set (aggregatedDataMap r campaigns)
             \<and> total_impressions g = impressions t \<and> total_clicks g = clicks t
             \<and> total_conversions g = conversions t)
      \<and> \<not> (total_impressions g = 0 \<and> total_clicks g = 0 \<and> total_conversions g = 0))
   \<and> restructureDevicePerformance r (map withoutOtherDevices campaigns)
       = restructureDevicePerformance r campaigns"
proof (intro conjI ballI)
  fix g assume g: "g \<in> set (restructureDevicePerformance r campaigns)"
  then obtain t where t: "(AggregatedDeviceData.device g, t) \<in> set (aggregatedDataMap r campaigns)"
    and gt: "g \<in> set (deviceResult r (AggregatedDeviceData.device g, t))"
    using restructure_member by blast
  from t have "AggregatedDeviceData.device g \<in> set (map fst (aggregatedDataMap r campaigns))"
    by force
  then show "AggregatedDeviceData.device g = ''Mobile'' \<or> AggregatedDeviceData.device g = ''Desktop''"
    by (simp add: aggregatedDataMap_keys)
  from t deviceResult_member(2,3,4)[OF gt]
  show "\<exists>t. (AggregatedDeviceData.device g, t) \<in> set (aggregatedDataMap r campaigns)
             \<and> total_impressions g = impressions t \<and> total_clicks g = clicks t
             \<and> total_conversions g = conversions t"
    by blast
  from deviceResult_member(2,3,4,5)[OF gt]
  show "\<not> (total_impressions g = 0 \<and> total_clicks g = 0 \<and> total_conversions g = 0)"
    by simp
next
  show "restructureDevicePerformance r (map withoutOtherDevices campaigns)
       = restructureDevicePerformance r campaigns"
    by (simp add: restructureDevicePerformance_def aggregatedDataMap_withoutOtherDevices)
qed

theorem device_groups_recognised_witness:
  "restructureDevicePerformance exact deviceSample =
     [\<lparr>AggregatedDeviceData.device = ''Mobile'', total_impressions = 120, total_clicks = 12,
       total_conversions = 2, total_spend = 11.01, total_revenue = 30, average_ctr = 10,
       average_conversion_rate = 16.67\<rparr>,
      \<lparr>AggregatedDeviceData.device = ''Desktop'', total_impressions = 300, total_clicks = 7,
       total_conversions = 0, total_spend = 2.5, total_revenue = 0, average_ctr = 2.33,
       average_conversion_rate = 0\<rparr>]
   \<and> map (map_option (map DevicePerformance.device) \<circ> device_performance)
         (map withoutOtherDevices deviceSample)
       = [Some [''Mobile'', '' Desktop ''], None, Some [''Mobile'']]
   \<and> restructureDevicePerformance exact (map withoutOtherDevices deviceSample)
       = restructureDevicePerformance exact deviceSample"
proof -
  have evaluated:
    "restructureDevicePerformance exact deviceSample =
       [\<lparr>AggregatedDeviceData.device = ''Mobile'', total_impressions = 120, total_clicks = 12,
         total_conversions = 2, total_spend = 11.01, total_revenue = 30, average_ctr = 10,
         average_conversion_rate = 16.67\<rparr>,
        \<lparr>AggregatedDeviceData.device = ''Desktop'', total_impressions = 300, total_clicks = 7,
         total_conversions = 0, total_spend = 2.5, total_revenue = 0, average_ctr = 2.33,
         average_conversion_rate = 0\<rparr>]"
    "map (map_option (map DevicePerformance.device) \<circ> device_performance)
         (map withoutOtherDevices deviceSample)
       = [Some [''Mobile'', '' Desktop ''], None, Some [''Mobile'']]"
    by code_simp+
  with device_groups_recognised[of exact deviceSample] show ?thesis
    by simp
qed

text \<open>
  Claim C10.  Every group of the device list reports, for spend and revenue, the sum
  accumulated for its device put through \<^verbatim>\<open>toFixed(2)\<close> and read back, and for the two
  rates the percentage (the ratio times 100) put through the same; and \<^verbatim>\<open>toFixed(2)\<close>
  yields a number of at most two decimals within half a hundredth of its argument (every
  binary64 value from \<open>10 ^ 21\<close> on is an integer).
\<close>

theorem device_figures_rounded:
  "(\<forall>g \<in> set (restructureDevicePerformance r campaigns).
      \<exists>t. (AggregatedDeviceData.device g, t) \<in> set (aggregatedDataMap r campaigns)
        \<and> total_spend g = r (toFixed2 (Metrics.spend t))
        \<and> total_revenue g = r (toFixed2 (Metrics.revenue t))
        \<and> average_ctr g =
            r (toFixed2 (if 0 < impressions t then r (r (clicks t / impressions t) * 100) else 0))
        \<and> average_conversion_rate g =
            r (toFixed2 (if 0 < clicks t then r (r (conversions t / clicks t) * 100) else 0)))
   \<and> (\<forall>x. \<bar>x\<bar> < 10 ^ 21 \<or> of_int \<lfloor>x\<rfloor> = x \<longrightarrow> roundedTo2Decimals x (toFixed2 x))"
proof (intro conjI ballI allI impI)
  fix g assume "g \<in> set (restructureDevicePerformance r campaigns)"
  then obtain t where t: "(AggregatedDeviceData.device g, t) \<in> set (aggregatedDataMap r campaigns)"
    and gt: "g \<in> set (deviceResult r (AggregatedDeviceData.device g, t))"
    using restructure_member by blast
  from t deviceResult_member(6,7,8,9)[OF gt]
  show "\<exists>t. (AggregatedDeviceData.device g, t) \<in> set (aggregatedDataMap r campaigns)
        \<and> total_spend g = r (toFixed2 (Metrics.spend t))
        \<and> total_revenue g = r (toFixed2 (Metrics.revenue t))
        \<and> average_ctr g =
            r (toFixed2 (if 0 < impressions t then r (r (clicks t / impressions t) * 100) else 0))
        \<and> average_conversion_rate g =
            r (toFixed2 (if 0 < clicks t then r (r (conversions t / clicks t) * 100) else 0))"
    by blast
next
  fix x :: rat assume "\<bar>x\<bar> < 10 ^ 21 \<or> of_int \<lfloor>x\<rfloor> = x"
  then show "roundedTo2Decimals x (toFixed2 x)" by (rule toFixed2_rounds)
qed

theorem device_figures_rounded_witness:
  "aggregatedDataMap exact deviceSample =
     [(''Mobile'', \<lparr>impressions = 120, clicks = 12, conversions = 2,
                    Metrics.spend = 11.006, Metrics.revenue = 30.004\<rparr>),
      (''Desktop'', \<lparr>impressions = 300, clicks = 7, conversions = 0,
                     Metrics.spend = 2.5, Metrics.revenue = 0\<rparr>)]
   \<and> map total_spend (restructureDevicePerformance exact deviceSample) = [11.01, 2.5]
   \<and> map total_revenue (restructureDevicePerformance exact deviceSample) = [30, 0]
   \<and> map average_ctr (restructureDevicePerformance exact deviceSample) = [10, 2.33]
   \<and> map average_conversion_rate (restructureDevicePerformance exact deviceSample) = [16.67, 0]
   \<and> \<bar>11.006 :: rat\<bar> < 10 ^ 21 \<and> toFixed2 11.006 = 11.01
   \<and> roundedTo2Decimals 11.006 (toFixed2 11.006)"
proof -
  have evaluated:
    "aggregatedDataMap exact deviceSample =
       [(''Mobile'', \<lparr>impressions = 120, clicks = 12, conversions = 2,
                      Metrics.spend = 11.006, Metrics.revenue = 30.004\<rparr>),
        (''Desktop'', \<lparr>impressions = 300, clicks = 7, conversions = 0,
                       Metrics.spend = 2.5, Metrics.revenue = 0\<rparr>)]"
    "map total_spend (restructureDevicePerformance exact deviceSample) = [11.01, 2.5]"
    "map total_revenue (restructureDevicePerformance exact deviceSample) = [30, 0]"
    "map average_ctr (restructureDevicePerformance exact deviceSample) = [10, 2.33]"
    "map average_conversion_rate (restructureDevicePerformance exact deviceSample) = [16.67, 0]"
    "\<bar>11.006 :: rat\<bar> < 10 ^ 21" "toFixed2 11.006 = 11.01"
    by code_simp+
  from device_figures_rounded[of exact deviceSample]
  have "roundedTo2Decimals 11.006 (toFixed2 11.006)"
    using evaluated(6) by blast
  with evaluated show ?thesis by simp
qed

text \<open>
  Claim C7.  When the device list holds a Mobile and a Desktop group, the comparison is
  computed; its delta percentage is the absolute revenue difference divided by the base
  and multiplied by 100, where the base is the Desktop revenue, or 1 when that revenue is 0.
  The base is never 0, and the share of Mobile divides only by a positive combined revenue.
\<close>

theorem delta_percent_guarded:
  assumes "List.find (\<lambda>d. AggregatedDeviceData.device d = ''Mobile'') deviceData = Some mobileData"
    and "List.find (\<lambda>d. AggregatedDeviceData.device d = ''Desktop'') deviceData = Some desktopData"
  shows "\<exists>c. deviceComparison r deviceData = Some c
           \<and> deltaBaseRevenue c
               = (if total_revenue desktopData = 0 then 1 else total_revenue desktopData)
           \<and> deltaBaseRevenue c \<noteq> 0
           \<and> deltaPercent c
               = r (r (\<bar>r (total_revenue mobileData - total_revenue desktopData)\<bar> / deltaBaseRevenue c)
                    * 100)
           \<and> mobileRevenuePercent c
               = (if 0 < combinedRevenue c
                  then r (r (total_revenue mobileData / combinedRevenue c) * 100) else 0)"
  using assms
  by (simp add: deviceComparison_def compareDevices_def Let_def num_sub_def num_add_def
      num_mul_def num_div_def)

theorem delta_percent_guarded_witness:
  "List.find (\<lambda>d. AggregatedDeviceData.device d = ''Mobile'')
       (restructureDevicePerformance exact deviceSample)
     = Some \<lparr>AggregatedDeviceData.device = ''Mobile'', total_impressions = 120, total_clicks = 12,
             total_conversions = 2, total_spend = 11.01, total_revenue = 30, average_ctr = 10,
             average_conversion_rate = 16.67\<rparr>
   \<and> List.find (\<lambda>d. AggregatedDeviceData.device d = ''Desktop'')
         (restructureDevicePerformance exact deviceSample)
     = Some \<lparr>AggregatedDeviceData.device = ''Desktop'', total_impressions = 300, total_clicks = 7,
             total_conversions = 0, total_spend = 2.5, total_revenue = 0, average_ctr = 2.33,
             average_conversion_rate = 0\<rparr>
   \<and> map_option deltaBaseRevenue
         (deviceComparison exact (restructureDevicePerformance exact deviceSample)) = Some 1
   \<and> map_option deltaPercent
         (deviceComparison exact (restructureDevicePerformance exact deviceSample)) = Some 3000
   \<and> map_option deltaBaseRevenue
         (deviceComparison exact (restructureDevicePerformance exact deviceSampleBoth)) = Some 20
   \<and> map_option deltaPercent
         (deviceComparison exact (restructureDevicePerformance exact deviceSampleBoth)) = Some 50"
proof -
  have found:
    "List.find (\<lambda>d. AggregatedDeviceData.device d = ''Mobile'')
         (restructureDevicePerformance exact deviceSample)
       = Some \<lparr>AggregatedDeviceData.device = ''Mobile'', total_impressions = 120, total_clicks = 12,
               total_conversions = 2, total_spend = 11.01, total_revenue = 30, average_ctr = 10,
               average_conversion_rate = 16.67\<rparr>"
    "List.find (\<lambda>d. AggregatedDeviceData.device d = ''Desktop'')
         (restructureDevicePerformance exact deviceSample)
       = Some \<lparr>AggregatedDeviceData.device = ''Desktop'', total_impressions = 300, total_clicks = 7,
               total_conversions = 0, total_spend = 2.5, total_revenue = 0, average_ctr = 2.33,
               average_conversion_rate = 0\<rparr>"
    by code_simp+
  from delta_percent_guarded[OF found, of exact]
  have "map_option deltaBaseRevenue
          (deviceComparison exact (restructureDevicePerformance exact deviceSample)) = Some 1"
    and "map_option deltaPercent
          (deviceComparison exact (restructureDevicePerformance exact deviceSample)) = Some 3000"
    by (auto simp: exact_def)
  moreover have
    "map_option deltaBaseRevenue
       (deviceComparison exact (restructureDevicePerformance exact deviceSampleBoth)) = Some 20"
    "map_option deltaPercent
       (deviceComparison exact (restructureDevicePerformance exact deviceSampleBoth)) = Some 50"
    by code_simp+
  ultimately show ?thesis using found by simp
qed

text \<open>
  Claim C8.  On the empty campaign list each of the four computations returns its
  initial result: zero totals, empty chart, table and map lists, an empty device list
  (for which the page shows the missing-device warning).  The computations are total
  functions without an error value, as the source has no \<^verbatim>\<open>throw\<close> on these paths.
\<close>

theorem empty_campaign_list:
  "weeklyAggregatedData r getTime engine [] =
     \<lparr>WeeklyViewResult.totalRevenue = 0, WeeklyViewResult.totalSpend = 0, avgConversionRate = 0,
      revenueChartData = [], spendChartData = []\<rparr>
   \<and> demographicAggregatedData r ageEngine [] =
     \<lparr>maleMetrics = \<lparr>totalClicks = 0, GenderMetrics.totalSpend = 0, GenderMetrics.totalRevenue = 0\<rparr>,
      femaleMetrics = \<lparr>totalClicks = 0, GenderMetrics.totalSpend = 0, GenderMetrics.totalRevenue = 0\<rparr>,
      spendChart = [], revenueChart = [], maleTableData = [], femaleTableData = []\<rparr>
   \<and> restructureDevicePerformance r [] = []
   \<and> deviceComparison r (restructureDevicePerformance r []) = None
   \<and> regionAggregatedData r [] =
     \<lparr>RegionViewResult.totalRevenue = 0, RegionViewResult.totalSpend = 0, averageRoas = 0,
      topRegion = ''N/A'', revenueMapData = [], spendMapData = []\<rparr>"
  by (simp add: weeklyAggregatedData_def initialWeeklyResult_def demographicAggregatedData_def
      initialMetrics_def restructureDevicePerformance_def deviceComparison_def
      regionAggregatedData_def initialRegionResult_def)

lemma sumOf_exact: "sumOf exact f xs = sum_list (map f xs)"
proof -
  have "foldl (\<lambda>sum item. sum + f item) a xs = a + sum_list (map f xs)" for a
    by (induction xs arbitrary: a) (simp_all add: add.assoc)
  then show ?thesis by (simp add: sumOf_def num_add_def exact_def)
qed

text \<open>
  Claim C3.  The weekly average conversion rate is the quotient of two totals taken over
  the final weekly list, total conversions by total clicks, and 0 when the total of
  clicks is not positive; the regional average ROAS is the sum of the per-group ROAS
  values of the final (filtered) regional list divided by its length, and 0 when that
  list is empty.  The second conjunct pair reads the same under exact arithmetic.
\<close>

theorem average_rates:
  "avgConversionRate (weeklyAggregatedData r getTime engine campaigns)
     = (if 0 < sumOf r clicks (finalWeeklyList r getTime engine campaigns)
        then r (sumOf r conversions (finalWeeklyList r getTime engine campaigns)
                / sumOf r clicks (finalWeeklyList r getTime engine campaigns))
        else 0)
   \<and> averageRoas (regionAggregatedData r campaigns)
     = (if finalRegionalList r campaigns = [] then 0
        else r (sumOf r roas (finalRegionalList r campaigns)
                / of_nat (length (finalRegionalList r campaigns))))
   \<and> avgConversionRate (weeklyAggregatedData exact getTime engine campaigns)
     = (if 0 < sum_list (map clicks (finalWeeklyList exact getTime engine campaigns))
        then sum_list (map conversions (finalWeeklyList exact getTime engine campaigns))
             / sum_list (map clicks (finalWeeklyList exact getTime engine campaigns))
        else 0)
   \<and> averageRoas (regionAggregatedData exact campaigns)
     = (if finalRegionalList exact campaigns = [] then 0
        else sum_list (map roas (finalRegionalList exact campaigns))
             / of_nat (length (finalRegionalList exact campaigns)))"
proof -
  have empty_weekly: "finalWeeklyList r getTime engine [] = []" for r
    by (simp add: finalWeeklyList_def weeklyMap_def objectValues_def objectEntries_def
        sortByNumber_def)
  have empty_regional: "finalRegionalList r [] = []" for r
    by (simp add: finalRegionalList_def regionalMap_def objectValues_def objectEntries_def)
  have weekly: "avgConversionRate (weeklyAggregatedData r getTime engine campaigns)
     = (if 0 < sumOf r clicks (finalWeeklyList r getTime engine campaigns)
        then r (sumOf r conversions (finalWeeklyList r getTime engine campaigns)
                / sumOf r clicks (finalWeeklyList r getTime engine campaigns))
        else 0)" for r
    by (cases "campaigns = []")
      (simp_all add: weeklyAggregatedData_def initialWeeklyResult_def empty_weekly sumOf_def
        Let_def num_div_def)
  have regional: "averageRoas (regionAggregatedData r campaigns)
     = (if finalRegionalList r campaigns = [] then 0
        else r (sumOf r roas (finalRegionalList r campaigns)
                / of_nat (length (finalRegionalList r campaigns))))" for r
    by (cases "campaigns = []")
      (simp_all add: regionAggregatedData_def initialRegionResult_def empty_regional Let_def
        num_div_def)
  show ?thesis
    using weekly[of r] regional[of r] weekly[of exact] regional[of exact]
    by (simp add: sumOf_exact exact_def)
qed

theorem average_rates_witness:
  "finalWeeklyList exact sampleGetTime id weeklySample =
     [\<lparr>impressions = 100, clicks = 10, conversions = 5, Metrics.spend = 100,
       Metrics.revenue = 300, weekStart = ''2024-01-01'', weekEnd = ''2024-01-07'',
       AggregatedWeeklyPerformance.ctr = 1 / 10,
       AggregatedWeeklyPerformance.conversionRate = 1 / 2\<rparr>,
      \<lparr>impressions = 1500, clicks = 90, conversions = 9, Metrics.spend = 150,
       Metrics.revenue = 225, weekStart = ''2024-01-08'', weekEnd = ''2024-01-14'',
       AggregatedWeeklyPerformance.ctr = 3 / 50,
       AggregatedWeeklyPerformance.conversionRate = 1 / 10\<rparr>]
   \<and> avgConversionRate (weeklyAggregatedData exact sampleGetTime id weeklySample) = 14 / 100
   \<and> sum_list (map AggregatedWeeklyPerformance.conversionRate
         (finalWeeklyList exact sampleGetTime id weeklySample)) / 2 = 30 / 100
   \<and> map roas (finalRegionalList exact regionSample) = [2, 1]
   \<and> averageRoas (regionAggregatedData exact regionSample) = 3 / 2
   \<and> sum_list (map Metrics.revenue (finalRegionalList exact regionSample))
       / sum_list (map Metrics.spend (finalRegionalList exact regionSample)) = 5 / 4"
proof -
  have evaluated:
    "finalWeeklyList exact sampleGetTime id weeklySample =
       [\<lparr>impressions = 100, clicks = 10, conversions = 5, Metrics.spend = 100,
         Metrics.revenue = 300, weekStart = ''2024-01-01'', weekEnd = ''2024-01-07'',
         AggregatedWeeklyPerformance.ctr = 1 / 10,
         AggregatedWeeklyPerformance.conversionRate = 1 / 2\<rparr>,
        \<lparr>impressions = 1500, clicks = 90, conversions = 9, Metrics.spend = 150,
         Metrics.revenue = 225, weekStart = ''2024-01-08'', weekEnd = ''2024-01-14'',
         AggregatedWeeklyPerformance.ctr = 3 / 50,
         AggregatedWeeklyPerformance.conversionRate = 1 / 10\<rparr>]"
    "finalRegionalList exact regionSample \<noteq> []"
    "map roas (finalRegionalList exact regionSample) = [2, 1]"
    "length (finalRegionalList exact regionSample) = 2"
    "sum_list (map Metrics.revenue (finalRegionalList exact regionSample))
       / sum_list (map Metrics.spend (finalRegionalList exact regionSample)) = 5 / 4"
    by code_simp+
  from average_rates[of exact sampleGetTime id weeklySample]
    average_rates[of exact sampleGetTime id regionSample] evaluated
  show ?thesis
    by (simp add: sumOf_exact exact_def)
qed

subsection \<open>Objects\<close>

lemma set_objectEntries: "set (objectEntries obj) = set obj"
  by (auto simp: objectEntries_def)

lemma set_objectValues: "set (objectValues obj) = snd ` set obj"
  by (simp add: objectValues_def set_objectEntries)

lemma getProperty_Own: "getProperty obj key = Own v \<Longrightarrow> (key, v) \<in> set obj"
  by (auto simp: getProperty_def split: option.splits if_splits dest: map_of_SomeD)

lemma getProperty_Missing: "getProperty obj key = Missing \<Longrightarrow> key \<notin> fst ` set obj"
  by (auto simp: getProperty_def map_of_eq_None_iff split: option.splits if_splits)

lemma getProperty_Inherited: "getProperty obj key = Inherited \<Longrightarrow> key \<in> set objectPrototypeKeys"
  by (auto simp: getProperty_def split: option.splits if_splits)

lemma hyphen_not_inherited: "CHR ''-'' \<in> set key \<Longrightarrow> key \<notin> set objectPrototypeKeys"
  by (auto simp: objectPrototypeKeys_def)

lemma set_update_cases:
  "p \<in> set (AList.update k v al) \<Longrightarrow> p = (k, v) \<or> p \<in> set al"
  by (induction al) (auto split: if_splits)

lemma update_present_keys: "k \<in> fst ` set al \<Longrightarrow> map fst (AList.update k v al) = map fst al"
  by (induction al) auto

lemma update_present_member: "k \<in> fst ` set al \<Longrightarrow> (k, v) \<in> set (AList.update k v al)"
  by (induction al) auto

subsection \<open>Region view\<close>

lemma addMetrics_regional [simp]:
  "RegionalPerformance.region (addMetrics r t x) = RegionalPerformance.region t"
  "RegionalPerformance.country (addMetrics r t x) = RegionalPerformance.country t"
  "AggregatedRegionalPerformance.latitude (addMetrics r t x) = AggregatedRegionalPerformance.latitude t"
  "AggregatedRegionalPerformance.longitude (addMetrics r t x) = AggregatedRegionalPerformance.longitude t"
  by (simp_all add: addMetrics_def)

lemma regionalRates_fields [simp]:
  "RegionalPerformance.region (regionalRates r t) = RegionalPerformance.region t"
  "RegionalPerformance.country (regionalRates r t) = RegionalPerformance.country t"
  "AggregatedRegionalPerformance.latitude (regionalRates r t) = AggregatedRegionalPerformance.latitude t"
  "AggregatedRegionalPerformance.longitude (regionalRates r t) = AggregatedRegionalPerformance.longitude t"
  "impressions (regionalRates r t) = impressions t"
  "clicks (regionalRates r t) = clicks t"
  "conversions (regionalRates r t) = conversions t"
  by (simp_all add: regionalRates_def)

lemma enriched_new: "enriched (regionKey rec, addMetrics r (newRegionalTotals rec) rec)"
  by (simp add: enriched_def regionKey_def newRegionalTotals_def Let_def)

lemma enriched_add: "enriched (k, t) \<Longrightarrow> enriched (k, addMetrics r t rec)"
  by (simp add: enriched_def)

lemma accumulateRegion_invariant:
  assumes "distinct (map fst m)" and "\<forall>p \<in> set m. enriched p"
  shows "distinct (map fst (accumulateRegion r m rec))
         \<and> (\<forall>p \<in> set (accumulateRegion r m rec). enriched p)"
proof (cases "getProperty m (regionKey rec)")
  case (Own totals)
  then have mem: "(regionKey rec, totals) \<in> set m" by (rule getProperty_Own)
  then have key: "regionKey rec \<in> fst ` set m" by force
  from mem assms(2) have "enriched (regionKey rec, totals)" by blast
  then have "enriched (regionKey rec, addMetrics r totals rec)" by (rule enriched_add)
  with assms key Own show ?thesis
    by (auto simp: accumulateRegion_def Let_def update_present_keys dest!: set_update_cases)
next
  case Missing
  then have "regionKey rec \<notin> fst ` set m" by (rule getProperty_Missing)
  with assms Missing enriched_new[of rec r] show ?thesis
    by (auto simp: accumulateRegion_def Let_def)
next
  case Inherited
  with assms show ?thesis by (simp add: accumulateRegion_def Let_def)
qed

lemma foldl_accumulateRegion_invariant:
  "distinct (map fst m) \<Longrightarrow> \<forall>p \<in> set m. enriched p \<Longrightarrow>
   distinct (map fst (foldl (accumulateRegion r) m recs))
   \<and> (\<forall>p \<in> set (foldl (accumulateRegion r) m recs). enriched p)"
proof (induction recs arbitrary: m)
  case Nil
  then show ?case by simp
next
  case (Cons rec recs)
  from accumulateRegion_invariant[OF Cons.prems, of r rec] Cons.IH[of "accumulateRegion r m rec"]
  show ?case by simp
qed

lemma regionalMap_invariant:
  "distinct (map fst (regionalMap r campaigns)) \<and> (\<forall>p \<in> set (regionalMap r campaigns). enriched p)"
proof -
  have "distinct (map fst m) \<Longrightarrow> \<forall>p \<in> set m. enriched p \<Longrightarrow>
        distinct (map fst (foldl (\<lambda>m campaign. foldl (accumulateRegion r) m
                    (regional_performance campaign)) m campaigns))
        \<and> (\<forall>p \<in> set (foldl (\<lambda>m campaign. foldl (accumulateRegion r) m
                    (regional_performance campaign)) m campaigns). enriched p)" for m
  proof (induction campaigns arbitrary: m)
    case Nil
    then show ?case by simp
  next
    case (Cons c cs)
    from foldl_accumulateRegion_invariant[OF Cons.prems, of r "regional_performance c"]
      Cons.IH[of "foldl (accumulateRegion r) m (regional_performance c)"]
    show ?case by simp
  qed
  from this[of "[]"] show ?thesis by (simp add: regionalMap_def)
qed

text \<open>Keys once entered stay, and every record enters its key.\<close>

lemma regionKey_hyphen: "CHR ''-'' \<in> set (regionKey rec)"
  by (simp add: regionKey_def)

lemma accumulateRegion_keys:
  "fst ` set m \<subseteq> fst ` set (accumulateRegion r m rec)
   \<and> regionKey rec \<in> fst ` set (accumulateRegion r m rec)"
proof (cases "getProperty m (regionKey rec)")
  case (Own totals)
  then have "regionKey rec \<in> fst ` set m" using getProperty_Own by force
  then have "map fst (AList.update (regionKey rec) (addMetrics r totals rec) m) = map fst m"
    by (rule update_present_keys)
  then have "fst ` set (AList.update (regionKey rec) (addMetrics r totals rec) m) = fst ` set m"
    by (metis set_map)
  with Own \<open>regionKey rec \<in> fst ` set m\<close> show ?thesis
    by (simp add: accumulateRegion_def Let_def)
next
  case Missing
  then show ?thesis by (auto simp: accumulateRegion_def Let_def)
next
  case Inherited
  then have "regionKey rec \<in> set objectPrototypeKeys" by (rule getProperty_Inherited)
  with hyphen_not_inherited[OF regionKey_hyphen] show ?thesis by blast
qed

lemma foldl_accumulateRegion_keys:
  "fst ` set m \<union> regionKey ` set recs \<subseteq> fst ` set (foldl (accumulateRegion r) m recs)"
proof (induction recs arbitrary: m)
  case Nil
  then show ?case by simp
next
  case (Cons rec recs)
  from accumulateRegion_keys[of m r rec] Cons.IH[of "accumulateRegion r m rec"]
  show ?case by auto
qed

lemma regionalMap_keys:
  assumes "c \<in> set campaigns" and "rec \<in> set (regional_performance c)"
  shows "regionKey rec \<in> fst ` set (regionalMap r campaigns)"
proof -
  have step: "fst ` set m \<subseteq> fst ` set (foldl (\<lambda>m campaign. foldl (accumulateRegion r) m
                    (regional_performance campaign)) m campaigns)
        \<and> (c \<in> set campaigns \<longrightarrow> regionKey rec
              \<in> fst ` set (foldl (\<lambda>m campaign. foldl (accumulateRegion r) m
                    (regional_performance campaign)) m campaigns))" for m
  proof (induction campaigns arbitrary: m)
    case Nil
    then show ?case by simp
  next
    case (Cons c' cs)
    let ?m' = "foldl (accumulateRegion r) m (regional_performance c')"
    have first: "fst ` set m \<subseteq> fst ` set ?m'"
      and entered: "regionKey ` set (regional_performance c') \<subseteq> fst ` set ?m'"
      using foldl_accumulateRegion_keys[of m "regional_performance c'" r] by simp_all
    have rest: "fst ` set ?m' \<subseteq> fst ` set (foldl (\<lambda>m campaign. foldl (accumulateRegion r) m
                    (regional_performance campaign)) ?m' cs)"
      and later: "c \<in> set cs \<longrightarrow> regionKey rec
              \<in> fst ` set (foldl (\<lambda>m campaign. foldl (accumulateRegion r) m
                    (regional_performance campaign)) ?m' cs)"
      using Cons.IH[of ?m'] by simp_all
    have here: "c = c' \<longrightarrow> regionKey rec \<in> fst ` set ?m'"
      using entered assms(2) by blast
    have "fst ` set m \<subseteq> fst ` set (foldl (\<lambda>m campaign. foldl (accumulateRegion r) m
                    (regional_performance campaign)) ?m' cs)"
      using first rest by (rule subset_trans)
    moreover have "c \<in> set (c' # cs) \<longrightarrow> regionKey rec
              \<in> fst ` set (foldl (\<lambda>m campaign. foldl (accumulateRegion r) m
                    (regional_performance campaign)) ?m' cs)"
    proof
      assume "c \<in> set (c' # cs)"
      then consider "c = c'" | "c \<in> set cs" by auto
      then show "regionKey rec
              \<in> fst ` set (foldl (\<lambda>m campaign. foldl (accumulateRegion r) m
                    (regional_performance campaign)) ?m' cs)"
      proof cases
        case 1
        with here have "regionKey rec \<in> fst ` set ?m'" by simp
        with rest show ?thesis by (rule subsetD)
      next
        case 2
        with later show ?thesis by simp
      qed
    qed
    ultimately show ?case by (simp only: foldl_Cons) 
  qed
  from step[of "[]"] assms(1) show ?thesis by (simp add: regionalMap_def)
qed

lemma finalRegionalList_member:
  assumes "g \<in> set (finalRegionalList r campaigns)"
  shows "hasCoordinates g \<and> (\<exists>k t. (k, t) \<in> set (regionalMap r campaigns) \<and> g = regionalRates r t)"
proof -
  from assms have h: "hasCoordinates g"
    and "g \<in> regionalRates r ` snd ` set (regionalMap r campaigns)"
    by (simp_all add: finalRegionalList_def set_objectValues)
  then obtain p where "p \<in> set (regionalMap r campaigns)" and "g = regionalRates r (snd p)"
    by blast
  with h show ?thesis by (cases p) auto
qed

text \<open>What the regional map holds for a key.\<close>

lemma foldl_concat_map:
  "foldl (\<lambda>m c. foldl f m (sel c)) m cs = foldl f m (concat (map sel cs))"
  by (induction cs arbitrary: m) simp_all

lemma sumOf_snoc: "sumOf r f (xs @ [x]) = r (sumOf r f xs + f x)"
  by (simp add: sumOf_def num_add_def)

lemma accumulatedOver_new: "accumulatedOver r [] (newRegionalTotals rec)"
  by (simp add: accumulatedOver_def newRegionalTotals_def Let_def sumOf_def)

lemma accumulatedOver_add:
  "accumulatedOver r recs t \<Longrightarrow> accumulatedOver r (recs @ [x]) (addMetrics r t x)"
  by (simp add: accumulatedOver_def sumOf_snoc addMetrics_def num_add_def)

lemma accumulateRegion_totals:
  assumes dist: "distinct (map fst m)"
    and keys: "fst ` set m = regionKey ` set seen"
    and tot: "\<forall>entry \<in> set m.
               accumulatedOver r (filter (\<lambda>x. regionKey x = fst entry) seen) (snd entry)"
  shows "distinct (map fst (accumulateRegion r m rec))
       \<and> fst ` set (accumulateRegion r m rec) = regionKey ` set (seen @ [rec])
       \<and> (\<forall>entry \<in> set (accumulateRegion r m rec).
             accumulatedOver r (filter (\<lambda>x. regionKey x = fst entry) (seen @ [rec])) (snd entry))"
proof (cases "getProperty m (regionKey rec)")
  case (Own totals)
  then have mem: "(regionKey rec, totals) \<in> set m" by (rule getProperty_Own)
  then have key: "regionKey rec \<in> fst ` set m" by force
  let ?m' = "AList.update (regionKey rec) (addMetrics r totals rec) m"
  have m': "accumulateRegion r m rec = ?m'" using Own by (simp add: accumulateRegion_def Let_def)
  have k': "map fst ?m' = map fst m" using key by (rule update_present_keys)
  have d': "distinct (map fst ?m')" using dist by (simp add: k')
  have s': "fst ` set ?m' = regionKey ` set (seen @ [rec])"
  proof -
    have "fst ` set ?m' = set (map fst ?m')" by simp
    also have "\<dots> = fst ` set m" by (simp only: k') simp
    finally show ?thesis using keys key by auto
  qed
  have new: "(regionKey rec, addMetrics r totals rec) \<in> set ?m'"
    using key by (rule update_present_member)
  have t': "accumulatedOver r (filter (\<lambda>x. regionKey x = fst entry) (seen @ [rec])) (snd entry)"
    if entry: "entry \<in> set ?m'" for entry
  proof (cases "fst entry = regionKey rec")
    case True
    with d' new entry have "snd entry = addMetrics r totals rec"
      using eq_key_imp_eq_value[of ?m' "regionKey rec" "snd entry" "addMetrics r totals rec"]
      by (cases entry) simp
    moreover from tot mem
    have "accumulatedOver r (filter (\<lambda>x. regionKey x = regionKey rec) seen) totals" by force
    then have "accumulatedOver r (filter (\<lambda>x. regionKey x = regionKey rec) seen @ [rec])
                 (addMetrics r totals rec)"
      by (rule accumulatedOver_add)
    ultimately show ?thesis using True by simp
  next
    case False
    from entry have "entry = (regionKey rec, addMetrics r totals rec) \<or> entry \<in> set m"
      by (rule set_update_cases)
    with False have "entry \<in> set m" by auto
    with tot False show ?thesis by simp
  qed
  from d' s' t' show ?thesis unfolding m' by blast
next
  case Missing
  then have fresh: "regionKey rec \<notin> fst ` set m" by (rule getProperty_Missing)
  let ?v = "addMetrics r (newRegionalTotals rec) rec"
  have m': "accumulateRegion r m rec = m @ [(regionKey rec, ?v)]"
    using Missing by (simp add: accumulateRegion_def Let_def)
  have d': "distinct (map fst (m @ [(regionKey rec, ?v)]))" using dist fresh by simp
  have s': "fst ` set (m @ [(regionKey rec, ?v)]) = regionKey ` set (seen @ [rec])"
    using keys by auto
  have none: "filter (\<lambda>x. regionKey x = regionKey rec) seen = []"
  proof -
    have "regionKey x \<noteq> regionKey rec" if "x \<in> set seen" for x
    proof
      assume "regionKey x = regionKey rec"
      with that have "regionKey rec \<in> regionKey ` set seen" by (metis imageI)
      with fresh keys show False by simp
    qed
    then show ?thesis by (simp add: filter_empty_conv)
  qed
  have "accumulatedOver r ([] @ [rec]) ?v"
    by (rule accumulatedOver_add[OF accumulatedOver_new])
  then have first: "accumulatedOver r (filter (\<lambda>x. regionKey x = regionKey rec) (seen @ [rec])) ?v"
    by (simp add: none)
  have t': "accumulatedOver r (filter (\<lambda>x. regionKey x = fst entry) (seen @ [rec])) (snd entry)"
    if entry: "entry \<in> set (m @ [(regionKey rec, ?v)])" for entry
  proof (cases "entry \<in> set m")
    case True
    then have "fst entry \<noteq> regionKey rec" using fresh by force
    with tot True show ?thesis by simp
  next
    case False
    with entry have "entry = (regionKey rec, ?v)" by simp
    with first show ?thesis by simp
  qed
  from d' s' t' show ?thesis unfolding m' by blast
next
  case Inherited
  then have "regionKey rec \<in> set objectPrototypeKeys" by (rule getProperty_Inherited)
  with hyphen_not_inherited[OF regionKey_hyphen] show ?thesis by blast
qed

lemma foldl_accumulateRegion_totals:
  assumes "distinct (map fst m)"
    and "fst ` set m = regionKey ` set seen"
    and "\<forall>entry \<in> set m.
           accumulatedOver r (filter (\<lambda>x. regionKey x = fst entry) seen) (snd entry)"
  shows "\<forall>entry \<in> set (foldl (accumulateRegion r) m recs).
           accumulatedOver r (filter (\<lambda>x. regionKey x = fst entry) (seen @ recs)) (snd entry)"
  using assms
proof (induction recs arbitrary: m seen)
  case Nil
  then show ?case by simp
next
  case (Cons rec recs)
  from accumulateRegion_totals[OF Cons.prems, of rec]
  have "\<forall>entry \<in> set (foldl (accumulateRegion r) (accumulateRegion r m rec) recs).
           accumulatedOver r (filter (\<lambda>x. regionKey x = fst entry) ((seen @ [rec]) @ recs))
             (snd entry)"
    by (intro Cons.IH) simp_all
  then show ?case by simp
qed

lemma regionalMap_totals:
  "\<forall>entry \<in> set (regionalMap r campaigns).
     accumulatedOver r (filter (\<lambda>x. regionKey x = fst entry) (regionalRecords campaigns)) (snd entry)"
  using foldl_accumulateRegion_totals[of "[]" "[]" r "regionalRecords campaigns"]
  by (simp add: regionalMap_def foldl_concat_map regionalRecords_def)

text \<open>
  Claim C6.  No group of the final regional list, and no point of the two map series
  built from it, has latitude 0 together with longitude 0.  Every regional record enters
  its key into the internal map; each entry of that map carries the coordinates the geo
  lookup gave for its region, and its impressions, clicks, conversions, spend and revenue
  are the running sums over all records of the campaign list that have its key, in the
  order the loops visit them; and an entry whose lookup gave the fallback position has
  no group in the final list.
\<close>

theorem unmapped_regions_excluded:
  "(\<forall>g \<in> set (finalRegionalList r campaigns).
      \<not> (AggregatedRegionalPerformance.latitude g = Some 0
         \<and> AggregatedRegionalPerformance.longitude g = Some 0))
   \<and> (\<forall>p \<in> set (revenueMapData (regionAggregatedData r campaigns))
             \<union> set (spendMapData (regionAggregatedData r campaigns)).
      \<not> (BubbleMapDataPoint.latitude p = Some 0 \<and> BubbleMapDataPoint.longitude p = Some 0))
   \<and> (\<forall>c \<in> set campaigns. \<forall>rec \<in> set (regional_performance c).
      regionKey rec \<in> fst ` set (regionalMap r campaigns))
   \<and> (\<forall>entry \<in> set (regionalMap r campaigns). enriched entry)
   \<and> (\<forall>entry \<in> set (regionalMap r campaigns).
      accumulatedOver r
        (filter (\<lambda>rec. regionKey rec = fst entry) (regionalRecords campaigns)) (snd entry))
   \<and> (\<forall>entry \<in> set (regionalMap r campaigns).
      getCoordinates (RegionalPerformance.region (snd entry)) = Some fallbackPosition \<longrightarrow>
      (\<forall>g \<in> set (finalRegionalList r campaigns).
         RegionalPerformance.region g @ ''-'' @ RegionalPerformance.country g \<noteq> fst entry))"
proof (intro conjI ballI impI)
  fix g assume "g \<in> set (finalRegionalList r campaigns)"
  then have "hasCoordinates g" using finalRegionalList_member by blast
  then show "\<not> (AggregatedRegionalPerformance.latitude g = Some 0
         \<and> AggregatedRegionalPerformance.longitude g = Some 0)"
    by (auto simp: hasCoordinates_def)
next
  fix p assume p: "p \<in> set (revenueMapData (regionAggregatedData r campaigns))
             \<union> set (spendMapData (regionAggregatedData r campaigns))"
  then have "campaigns \<noteq> []"
    by (auto simp: regionAggregatedData_def initialRegionResult_def)
  with p obtain g where g: "g \<in> set (finalRegionalList r campaigns)"
    and "p = revenueBubble g \<or> p = spendBubble g"
    by (auto simp: regionAggregatedData_def Let_def sortedRegionalList_def)
  then have "BubbleMapDataPoint.latitude p = AggregatedRegionalPerformance.latitude g"
    and "BubbleMapDataPoint.longitude p = AggregatedRegionalPerformance.longitude g"
    by (auto simp: revenueBubble_def spendBubble_def)
  moreover from g have "hasCoordinates g" using finalRegionalList_member by blast
  ultimately show "\<not> (BubbleMapDataPoint.latitude p = Some 0 \<and> BubbleMapDataPoint.longitude p = Some 0)"
    by (auto simp: hasCoordinates_def)
next
  fix c rec assume "c \<in> set campaigns" and "rec \<in> set (regional_performance c)"
  then show "regionKey rec \<in> fst ` set (regionalMap r campaigns)" by (rule regionalMap_keys)
next
  fix entry assume "entry \<in> set (regionalMap r campaigns)"
  then show "enriched entry" using regionalMap_invariant by blast
next
  fix entry assume "entry \<in> set (regionalMap r campaigns)"
  with regionalMap_totals[of r campaigns]
  show "accumulatedOver r
        (filter (\<lambda>rec. regionKey rec = fst entry) (regionalRecords campaigns)) (snd entry)"
    by (rule bspec)
next
  fix entry g
  assume entry: "entry \<in> set (regionalMap r campaigns)"
    and fallback: "getCoordinates (RegionalPerformance.region (snd entry)) = Some fallbackPosition"
    and g: "g \<in> set (finalRegionalList r campaigns)"
  show "RegionalPerformance.region g @ ''-'' @ RegionalPerformance.country g \<noteq> fst entry"
  proof
    assume same: "RegionalPerformance.region g @ ''-'' @ RegionalPerformance.country g = fst entry"
    from g obtain k t where kt: "(k, t) \<in> set (regionalMap r campaigns)"
      and gt: "g = regionalRates r t" and coords: "hasCoordinates g"
      using finalRegionalList_member by blast
    from kt have "enriched (k, t)" using regionalMap_invariant by blast
    then have "k = fst entry" using same gt by (simp add: enriched_def)
    moreover have "distinct (map fst (regionalMap r campaigns))"
      using regionalMap_invariant by blast
    ultimately have "t = snd entry"
      using kt entry eq_key_imp_eq_value[of "regionalMap r campaigns" k t "snd entry"] by simp
    moreover from entry have "enriched entry" using regionalMap_invariant by blast
    ultimately have "AggregatedRegionalPerformance.latitude g = Some 0"
      and "AggregatedRegionalPerformance.longitude g = Some 0"
      using fallback gt by (simp_all add: enriched_def fallbackPosition_def)
    with coords show False by (simp add: hasCoordinates_def)
  qed
qed

theorem unmapped_regions_excluded_witness:
  "map fst (regionalMap exact regionSample) = [''Atlantis-Nowhere'', ''Dubai-UAE'', ''Cairo-Egypt'']
   \<and> map (\<lambda>entry. getCoordinates (RegionalPerformance.region (snd entry)) = Some fallbackPosition)
         (regionalMap exact regionSample) = [True, False, False]
   \<and> map (\<lambda>entry. (impressions (snd entry), clicks (snd entry), conversions (snd entry),
                    Metrics.spend (snd entry), Metrics.revenue (snd entry)))
         (regionalMap exact regionSample)
       = [(200, 20, 2, 101, 1001), (100, 10, 1, 10, 20), (100, 10, 1, 30, 30)]
   \<and> map regionKey (regionalRecords regionSample)
       = [''Atlantis-Nowhere'', ''Dubai-UAE'', ''Cairo-Egypt'', ''Atlantis-Nowhere'']
   \<and> map (\<lambda>g. RegionalPerformance.region g @ ''-'' @ RegionalPerformance.country g)
         (finalRegionalList exact regionSample) = [''Dubai-UAE'', ''Cairo-Egypt'']
   \<and> map AggregatedRegionalPerformance.latitude (finalRegionalList exact regionSample)
       = [Some 25.276987, Some 30.033333]
   \<and> map AggregatedRegionalPerformance.longitude (finalRegionalList exact regionSample)
       = [Some 55.296249, Some 31.233334]
   \<and> map BubbleMapDataPoint.region (revenueMapData (regionAggregatedData exact regionSample))
       = [''Cairo'', ''Dubai'']
   \<and> list_all enriched (regionalMap exact regionSample)
   \<and> list_all (\<lambda>entry. accumulatedOver exact
         (filter (\<lambda>rec. regionKey rec = fst entry) (regionalRecords regionSample)) (snd entry))
       (regionalMap exact regionSample)"
proof -
  have evaluated:
    "map fst (regionalMap exact regionSample) = [''Atlantis-Nowhere'', ''Dubai-UAE'', ''Cairo-Egypt'']"
    "map (\<lambda>entry. getCoordinates (RegionalPerformance.region (snd entry)) = Some fallbackPosition)
         (regionalMap exact regionSample) = [True, False, False]"
    "map (\<lambda>entry. (impressions (snd entry), clicks (snd entry), conversions (snd entry),
                    Metrics.spend (snd entry), Metrics.revenue (snd entry)))
         (regionalMap exact regionSample)
       = [(200, 20, 2, 101, 1001), (100, 10, 1, 10, 20), (100, 10, 1, 30, 30)]"
    "map regionKey (regionalRecords regionSample)
       = [''Atlantis-Nowhere'', ''Dubai-UAE'', ''Cairo-Egypt'', ''Atlantis-Nowhere'']"
    "map (\<lambda>g. RegionalPerformance.region g @ ''-'' @ RegionalPerformance.country g)
         (finalRegionalList exact regionSample) = [''Dubai-UAE'', ''Cairo-Egypt'']"
    "map AggregatedRegionalPerformance.latitude (finalRegionalList exact regionSample)
       = [Some 25.276987, Some 30.033333]"
    "map AggregatedRegionalPerformance.longitude (finalRegionalList exact regionSample)
       = [Some 55.296249, Some 31.233334]"
    "map BubbleMapDataPoint.region (revenueMapData (regionAggregatedData exact regionSample))
       = [''Cairo'', ''Dubai'']"
    by code_simp+
  from unmapped_regions_excluded[of exact regionSample]
  have "list_all enriched (regionalMap exact regionSample)"
    and "list_all (\<lambda>entry. accumulatedOver exact
         (filter (\<lambda>rec. regionKey rec = fst entry) (regionalRecords regionSample)) (snd entry))
       (regionalMap exact regionSample)"
    by (simp_all add: list_all_iff)
  with evaluated show ?thesis by simp
qed

subsection \<open>Sorting keeps the elements\<close>

lemma mset_rearranged: "mset (rearranged engine xs) = mset xs"
  by (simp add: rearranged_def Let_def)

lemma mset_sortByNumber: "mset (sortByNumber engine key xs) = mset xs"
  by (simp add: sortByNumber_def mset_rearranged)

lemma set_sortByNumber: "set (sortByNumber engine key xs) = set xs"
  using mset_sortByNumber[of engine key xs] by (metis set_mset_mset)

subsection \<open>Rates under a monotone rounding\<close>

lemma rate_within:
  assumes mono: "\<And>x y :: rat. x \<le> y \<Longrightarrow> r x \<le> r y" and zero: "r 0 = 0" and one: "r 1 = 1"
    and "0 \<le> a" and "0 \<le> b"
  shows "rateWithin 1 a b (if 0 < b then num_div r a b else 0)"
proof (cases "0 < b")
  case True
  have "0 \<le> a / b" using assms(4) True by simp
  then have low: "0 \<le> r (a / b)" using mono[of 0 "a / b"] zero by simp
  have "a \<le> b \<Longrightarrow> r (a / b) \<le> 1"
  proof -
    assume "a \<le> b"
    then have "a / b \<le> 1" using True by simp
    then show ?thesis using mono[of "a / b" 1] one by simp
  qed
  with low True show ?thesis by (simp add: rateWithin_def num_div_def)
next
  case False
  then show ?thesis by (simp add: rateWithin_def)
qed

lemma toFixed2_unit:
  assumes "0 \<le> x" and "x \<le> 100"
  shows "0 \<le> toFixed2 x" and "toFixed2 x \<le> 100"
proof -
  have small: "\<not> 10 ^ 21 \<le> \<bar>x\<bar>" using assms by simp
  have "0 \<le> \<lfloor>x * 100 + 1 / 2\<rfloor>" using assms(1) by simp
  then have "(0 :: rat) \<le> of_int \<lfloor>x * 100 + 1 / 2\<rfloor>" by simp
  then show "0 \<le> toFixed2 x" using small assms(1) by (simp add: toFixed2_def)
  have "x * 100 + 1 / 2 < 10001" using assms(2) by simp
  then have "\<lfloor>x * 100 + 1 / 2\<rfloor> < 10001" by (simp add: floor_less_iff)
  then have "\<lfloor>x * 100 + 1 / 2\<rfloor> \<le> 10000" by simp
  then have "(of_int \<lfloor>x * 100 + 1 / 2\<rfloor> :: rat) \<le> 10000"
    by (metis of_int_le_iff of_int_numeral)
  then show "toFixed2 x \<le> 100" using small assms(1) by (simp add: toFixed2_def)
qed

lemma toFixed2_zero: "toFixed2 0 = 0"
  by (simp add: toFixed2_def)

lemma percent_within:
  assumes mono: "\<And>x y :: rat. x \<le> y \<Longrightarrow> r x \<le> r y" and zero: "r 0 = 0" and one: "r 1 = 1"
    and hundred: "r 100 = 100" and "0 \<le> a" and "0 \<le> b"
  shows "rateWithin 100 a b
           (r (toFixed2 (if 0 < b then r (r (a / b) * 100) else 0)))"
proof (cases "0 < b")
  case True
  have "0 \<le> a / b" using assms(5) True by simp
  then have low: "0 \<le> r (a / b)" using mono[of 0 "a / b"] zero by simp
  then have "0 \<le> r (a / b) * 100" by simp
  then have p0: "0 \<le> r (r (a / b) * 100)" using mono[of 0 "r (a / b) * 100"] zero by simp
  have nonneg: "0 \<le> r (toFixed2 (r (r (a / b) * 100)))"
  proof (cases "r (r (a / b) * 100) \<le> 100")
    case True
    with p0 have "0 \<le> toFixed2 (r (r (a / b) * 100))" by (rule toFixed2_unit(1))
    then show ?thesis using mono[of 0 "toFixed2 (r (r (a / b) * 100))"] zero by simp
  next
    case False
    then have "0 \<le> toFixed2 (r (r (a / b) * 100))"
      using p0 by (simp add: toFixed2_def)
    then show ?thesis using mono[of 0 "toFixed2 (r (r (a / b) * 100))"] zero by simp
  qed
  have "a \<le> b \<Longrightarrow> r (toFixed2 (r (r (a / b) * 100))) \<le> 100"
  proof -
    assume "a \<le> b"
    then have "a / b \<le> 1" using True by simp
    then have "r (a / b) \<le> 1" using mono[of "a / b" 1] one by simp
    then have "r (a / b) * 100 \<le> 100" by simp
    then have "r (r (a / b) * 100) \<le> 100" using mono[of "r (a / b) * 100" 100] hundred by simp
    with p0 have "toFixed2 (r (r (a / b) * 100)) \<le> 100" by (rule toFixed2_unit(2))
    then show ?thesis using mono[of "toFixed2 (r (r (a / b) * 100))" 100] hundred by simp
  qed
  with nonneg True show ?thesis by (simp add: rateWithin_def)
next
  case False
  then show ?thesis by (simp add: rateWithin_def toFixed2_zero zero)
qed

lemma nonNegative_addMetrics:
  assumes mono: "\<And>x y :: rat. x \<le> y \<Longrightarrow> r x \<le> r y" and zero: "r 0 = 0"
    and "nonNegative t" and "nonNegative x"
  shows "nonNegative (addMetrics r t x)"
proof -
  have "0 \<le> r (a + b)" if "0 \<le> a" "0 \<le> b" for a b :: rat
    using mono[of 0 "a + b"] zero that by simp
  with assms(3,4) show ?thesis
    by (simp add: nonNegative_def addMetrics_def num_add_def)
qed

subsection \<open>Invariants of the accumulation loops\<close>

lemma foldl_invariant:
  assumes "P m" and "\<And>m x. P m \<Longrightarrow> x \<in> set xs \<Longrightarrow> P (f m x)"
  shows "P (foldl f m xs)"
  using assms by (induction xs arbitrary: m) simp_all

lemma foldl_campaigns_invariant:
  assumes "P m" and "\<And>m c x. P m \<Longrightarrow> c \<in> set campaigns \<Longrightarrow> x \<in> set (sel c) \<Longrightarrow> P (f c m x)"
  shows "P (foldl (\<lambda>m c. foldl (f c) m (sel c)) m campaigns)"
  using assms
proof (induction campaigns arbitrary: m)
  case Nil
  then show ?case by simp
next
  case (Cons c cs)
  have "P (foldl (f c) m (sel c))"
    by (rule foldl_invariant[where P = P, OF Cons.prems(1)]) (simp add: Cons.prems(2))
  then have "P (foldl (\<lambda>m c. foldl (f c) m (sel c)) (foldl (f c) m (sel c)) cs)"
    by (rule Cons.IH) (simp add: Cons.prems(2))
  then show ?case by simp
qed

lemma nonNegativeCounts_parts:
  assumes "list_all nonNegativeCounts campaigns" and "c \<in> set campaigns"
  shows "x \<in> set (weekly_performance c) \<Longrightarrow> nonNegative x"
    and "b \<in> set (demographic_breakdown c) \<Longrightarrow> nonNegative (performance b)"
    and "device_performance c = Some stats \<Longrightarrow> s \<in> set stats \<Longrightarrow> nonNegative s"
    and "y \<in> set (regional_performance c) \<Longrightarrow> nonNegative y"
  using assms by (auto simp: list_all_iff nonNegativeCounts_def)

lemma weeklyMap_nonNegative:
  assumes mono: "\<And>x y :: rat. x \<le> y \<Longrightarrow> r x \<le> r y" and zero: "r 0 = 0"
    and counts: "list_all nonNegativeCounts campaigns"
  shows "\<forall>p \<in> set (weeklyMap r campaigns). nonNegative (snd p)"
  unfolding weeklyMap_def
proof (rule foldl_campaigns_invariant)
  show "\<forall>p \<in> set []. nonNegative (snd p)" by simp
next
  fix m :: "WeeklyTotals jsobject" and c week
  assume inv: "\<forall>p \<in> set m. nonNegative (snd p)" and c: "c \<in> set campaigns"
    and week: "week \<in> set (weekly_performance c)"
  from counts c week have nn: "nonNegative week" by (rule nonNegativeCounts_parts(1))
  have new: "nonNegative (newWeeklyTotals week)"
    by (simp add: nonNegative_def newWeeklyTotals_def)
  show "\<forall>p \<in> set (accumulateWeek r m week). nonNegative (snd p)"
  proof (cases "getProperty m (week_start week)")
    case (Own totals)
    then have "nonNegative totals" using inv getProperty_Own by fastforce
    then have "nonNegative (addMetrics r totals week)"
      using nonNegative_addMetrics[of r, OF mono zero _ nn] by simp
    with inv Own show ?thesis
      by (auto simp: accumulateWeek_def Let_def dest!: set_update_cases)
  next
    case Missing
    have "nonNegative (addMetrics r (newWeeklyTotals week) week)"
      by (rule nonNegative_addMetrics[of r, OF mono zero new nn])
    with inv Missing show ?thesis by (auto simp: accumulateWeek_def Let_def)
  next
    case Inherited
    with inv show ?thesis by (simp add: accumulateWeek_def Let_def)
  qed
qed

lemma regionalMap_nonNegative:
  assumes mono: "\<And>x y :: rat. x \<le> y \<Longrightarrow> r x \<le> r y" and zero: "r 0 = 0"
    and counts: "list_all nonNegativeCounts campaigns"
  shows "\<forall>p \<in> set (regionalMap r campaigns). nonNegative (snd p)"
  unfolding regionalMap_def
proof (rule foldl_campaigns_invariant)
  show "\<forall>p \<in> set []. nonNegative (snd p)" by simp
next
  fix m :: "AggregatedRegionalPerformance jsobject" and c rec
  assume inv: "\<forall>p \<in> set m. nonNegative (snd p)" and c: "c \<in> set campaigns"
    and rec: "rec \<in> set (regional_performance c)"
  from counts c rec have nn: "nonNegative rec" by (rule nonNegativeCounts_parts(4))
  have new: "nonNegative (newRegionalTotals rec)"
    by (simp add: nonNegative_def newRegionalTotals_def Let_def)
  show "\<forall>p \<in> set (accumulateRegion r m rec). nonNegative (snd p)"
  proof (cases "getProperty m (regionKey rec)")
    case (Own totals)
    then have "nonNegative totals" using inv getProperty_Own by fastforce
    then have "nonNegative (addMetrics r totals rec)"
      using nonNegative_addMetrics[of r, OF mono zero _ nn] by simp
    with inv Own show ?thesis
      by (auto simp: accumulateRegion_def Let_def dest!: set_update_cases)
  next
    case Missing
    have "nonNegative (addMetrics r (newRegionalTotals rec) rec)"
      by (rule nonNegative_addMetrics[of r, OF mono zero new nn])
    with inv Missing show ?thesis by (auto simp: accumulateRegion_def Let_def)
  next
    case Inherited
    with inv show ?thesis by (simp add: accumulateRegion_def Let_def)
  qed
qed

lemma nonNegative_addBreakdown:
  assumes mono: "\<And>x y :: rat. x \<le> y \<Longrightarrow> r x \<le> r y" and zero: "r 0 = 0"
    and "nonNegative t" and "nonNegative (performance b)"
  shows "nonNegative (addBreakdown r c t b)"
proof -
  have "0 \<le> r (x + y)" if "0 \<le> x" "0 \<le> y" for x y :: rat
    using mono[of 0 "x + y"] zero that by simp
  with assms(3,4) show ?thesis
    by (simp add: nonNegative_def addBreakdown_def num_add_def)
qed

lemma demographicMap_nonNegative:
  assumes mono: "\<And>x y :: rat. x \<le> y \<Longrightarrow> r x \<le> r y" and zero: "r 0 = 0"
    and counts: "list_all nonNegativeCounts campaigns"
  shows "\<forall>p \<in> set (demographicMap r campaigns). nonNegative (snd p)"
  unfolding demographicMap_def
proof (rule foldl_campaigns_invariant[where f = "accumulateBreakdown r"])
  show "\<forall>p \<in> set []. nonNegative (snd p)" by simp
next
  fix m :: "Metrics jsobject" and c b
  assume inv: "\<forall>p \<in> set m. nonNegative (snd p)" and c: "c \<in> set campaigns"
    and b: "b \<in> set (demographic_breakdown c)"
  from counts c b have nn: "nonNegative (performance b)" by (rule nonNegativeCounts_parts(2))
  have new: "nonNegative zeroMetrics"
    by (simp add: nonNegative_def zeroMetrics_def)
  show "\<forall>p \<in> set (accumulateBreakdown r c m b). nonNegative (snd p)"
  proof (cases "getProperty m (demographicKey b)")
    case (Own totals)
    then have "nonNegative totals" using inv getProperty_Own by fastforce
    then have "nonNegative (addBreakdown r c totals b)"
      using nonNegative_addBreakdown[of r, OF mono zero _ nn] by simp
    with inv Own show ?thesis
      by (auto simp: accumulateBreakdown_def Let_def dest!: set_update_cases)
  next
    case Missing
    have "nonNegative (addBreakdown r c zeroMetrics b)"
      by (rule nonNegative_addBreakdown[of r, OF mono zero new nn])
    with inv Missing show ?thesis by (auto simp: accumulateBreakdown_def Let_def)
  next
    case Inherited
    with inv show ?thesis by (simp add: accumulateBreakdown_def Let_def)
  qed
qed

lemma aggregatedDataMap_nonNegative:
  assumes mono: "\<And>x y :: rat. x \<le> y \<Longrightarrow> r x \<le> r y" and zero: "r 0 = 0"
    and counts: "list_all nonNegativeCounts campaigns"
  shows "\<forall>p \<in> set (aggregatedDataMap r campaigns). nonNegative (snd p)"
proof -
  have step: "\<forall>p \<in> set (accumulateDevice r m stat). nonNegative (snd p)"
    if "\<forall>p \<in> set m. nonNegative (snd p)" and "nonNegative stat" for m stat
  proof -
    have "nonNegative (addMetrics r t stat)" if "nonNegative t" for t :: Metrics
      by (rule nonNegative_addMetrics[of r, OF mono zero that \<open>nonNegative stat\<close>])
    with that(1) show ?thesis
      by (auto simp: accumulateDevice_def)
  qed
  have init: "\<forall>p \<in> set initialDeviceMap. nonNegative (snd p)"
    by (simp add: initialDeviceMap_def zeroMetrics_def nonNegative_def)
  have "(\<forall>p \<in> set m. nonNegative (snd p)) \<Longrightarrow> \<forall>c \<in> set cs. c \<in> set campaigns \<Longrightarrow>
        \<forall>p \<in> set (foldl (\<lambda>m campaign. case device_performance campaign of None \<Rightarrow> m
            | Some stats \<Rightarrow> foldl (accumulateDevice r) m stats) m cs). nonNegative (snd p)" for m cs
  proof (induction cs arbitrary: m)
    case Nil
    then show ?case by simp
  next
    case (Cons c cs)
    have "\<forall>p \<in> set (case device_performance c of None \<Rightarrow> m
            | Some stats \<Rightarrow> foldl (accumulateDevice r) m stats). nonNegative (snd p)"
    proof (cases "device_performance c")
      case None
      with Cons.prems(1) show ?thesis by simp
    next
      case (Some stats)
      have "\<forall>p \<in> set (foldl (accumulateDevice r) m stats). nonNegative (snd p)"
      proof (rule foldl_invariant[where P = "\<lambda>m. \<forall>p \<in> set m. nonNegative (snd p)"])
        show "\<forall>p \<in> set m. nonNegative (snd p)" by (rule Cons.prems(1))
      next
        fix m' :: "(string \<times> Metrics) list" and stat
        assume inv: "\<forall>p \<in> set m'. nonNegative (snd p)" and "stat \<in> set stats"
        with Some Cons.prems(2) counts have "nonNegative stat"
          using nonNegativeCounts_parts(3)[of campaigns c stats stat] by simp
        with inv show "\<forall>p \<in> set (accumulateDevice r m' stat). nonNegative (snd p)"
          by (rule step)
      qed
      with Some show ?thesis by simp
    qed
    then show ?case using Cons.IH Cons.prems(2) by simp
  qed
  from this[OF init, of campaigns] show ?thesis by (simp add: aggregatedDataMap_def)
qed

lemma finalWeeklyList_member:
  assumes "g \<in> set (finalWeeklyList r getTime engine campaigns)"
  shows "\<exists>p \<in> set (weeklyMap r campaigns). g = weeklyRates r (snd p)"
  using assms by (auto simp: finalWeeklyList_def set_sortByNumber set_objectValues)

lemma aggregatedList_member:
  assumes "g \<in> set (aggregatedList r campaigns)"
  shows "\<exists>p \<in> set (demographicMap r campaigns). g = demographicGroup r p"
  using assms by (auto simp: aggregatedList_def set_objectEntries)

text \<open>
  Claim C4, as amended.  Let the rounding be monotone and leave 0, 1 and 100 unchanged
  (exact arithmetic is such a rounding), and let no input count be negative.  Then in
  every group of the weekly, demographic and regional aggregations the click-through rate
  and the conversion rate are not negative, are 0 when their denominator is 0, and are at
  most 1 when the group's numerator does not exceed its denominator; in every group of
  the device aggregation the two rates, which are percentages, satisfy the same with 100
  as the upper limit.
\<close>

theorem rates_bounded:
  assumes mono: "\<And>x y :: rat. x \<le> y \<Longrightarrow> r x \<le> r y"
    and zero: "r 0 = 0" and one: "r 1 = 1" and hundred: "r 100 = 100"
    and counts: "list_all nonNegativeCounts campaigns"
  shows "(\<forall>g \<in> set (finalWeeklyList r getTime engine campaigns).
            rateWithin 1 (clicks g) (impressions g) (AggregatedWeeklyPerformance.ctr g)
            \<and> rateWithin 1 (conversions g) (clicks g) (AggregatedWeeklyPerformance.conversionRate g))
       \<and> (\<forall>g \<in> set (aggregatedList r campaigns).
            rateWithin 1 (clicks g) (impressions g) (AggregatedDemographicGroup.ctr g)
            \<and> rateWithin 1 (conversions g) (clicks g) (AggregatedDemographicGroup.conversionRate g))
       \<and> (\<forall>g \<in> set (finalRegionalList r campaigns).
            rateWithin 1 (clicks g) (impressions g) (AggregatedRegionalPerformance.ctr g)
            \<and> rateWithin 1 (conversions g) (clicks g) (AggregatedRegionalPerformance.conversionRate g))
       \<and> (\<forall>g \<in> set (restructureDevicePerformance r campaigns).
            rateWithin 100 (total_clicks g) (total_impressions g) (average_ctr g)
            \<and> rateWithin 100 (total_conversions g) (total_clicks g) (average_conversion_rate g))"
proof (intro conjI ballI)
  fix g assume "g \<in> set (finalWeeklyList r getTime engine campaigns)"
  then obtain p where p: "p \<in> set (weeklyMap r campaigns)" and g: "g = weeklyRates r (snd p)"
    using finalWeeklyList_member by blast
  from p have nn: "nonNegative (snd p)"
    using weeklyMap_nonNegative[of r, OF mono zero counts] by blast
  have "rateWithin 1 (clicks (snd p)) (impressions (snd p))
          (if 0 < impressions (snd p) then num_div r (clicks (snd p)) (impressions (snd p)) else 0)"
    using nn by (intro rate_within[of r, OF mono zero one]) (simp_all add: nonNegative_def)
  then show "rateWithin 1 (clicks g) (impressions g) (AggregatedWeeklyPerformance.ctr g)"
    by (simp add: g weeklyRates_def)
  have "rateWithin 1 (conversions (snd p)) (clicks (snd p))
          (if 0 < clicks (snd p) then num_div r (conversions (snd p)) (clicks (snd p)) else 0)"
    using nn by (intro rate_within[of r, OF mono zero one]) (simp_all add: nonNegative_def)
  then show "rateWithin 1 (conversions g) (clicks g) (AggregatedWeeklyPerformance.conversionRate g)"
    by (simp add: g weeklyRates_def)
next
  fix g assume "g \<in> set (aggregatedList r campaigns)"
  then obtain p where p: "p \<in> set (demographicMap r campaigns)" and g: "g = demographicGroup r p"
    using aggregatedList_member by blast
  from p have nn: "nonNegative (snd p)"
    using demographicMap_nonNegative[of r, OF mono zero counts] by blast
  have "rateWithin 1 (clicks (snd p)) (impressions (snd p))
          (if 0 < impressions (snd p) then num_div r (clicks (snd p)) (impressions (snd p)) else 0)"
    using nn by (intro rate_within[of r, OF mono zero one]) (simp_all add: nonNegative_def)
  then show "rateWithin 1 (clicks g) (impressions g) (AggregatedDemographicGroup.ctr g)"
    by (simp add: g demographicGroup_def Let_def)
  have "rateWithin 1 (conversions (snd p)) (clicks (snd p))
          (if 0 < clicks (snd p) then num_div r (conversions (snd p)) (clicks (snd p)) else 0)"
    using nn by (intro rate_within[of r, OF mono zero one]) (simp_all add: nonNegative_def)
  then show "rateWithin 1 (conversions g) (clicks g) (AggregatedDemographicGroup.conversionRate g)"
    by (simp add: g demographicGroup_def Let_def)
next
  fix g assume "g \<in> set (finalRegionalList r campaigns)"
  then obtain k t where p: "(k, t) \<in> set (regionalMap r campaigns)" and g: "g = regionalRates r t"
    using finalRegionalList_member by blast
  from p have nn: "nonNegative t"
    using regionalMap_nonNegative[of r, OF mono zero counts] by fastforce
  have "rateWithin 1 (clicks t) (impressions t)
          (if 0 < impressions t then num_div r (clicks t) (impressions t) else 0)"
    using nn by (intro rate_within[of r, OF mono zero one]) (simp_all add: nonNegative_def)
  then show "rateWithin 1 (clicks g) (impressions g) (AggregatedRegionalPerformance.ctr g)"
    by (simp add: g regionalRates_def)
  have "rateWithin 1 (conversions t) (clicks t)
          (if 0 < clicks t then num_div r (conversions t) (clicks t) else 0)"
    using nn by (intro rate_within[of r, OF mono zero one]) (simp_all add: nonNegative_def)
  then show "rateWithin 1 (conversions g) (clicks g) (AggregatedRegionalPerformance.conversionRate g)"
    by (simp add: g regionalRates_def)
next
  fix g assume "g \<in> set (restructureDevicePerformance r campaigns)"
  then obtain t where t: "(AggregatedDeviceData.device g, t) \<in> set (aggregatedDataMap r campaigns)"
    and gt: "g \<in> set (deviceResult r (AggregatedDeviceData.device g, t))"
    using restructure_member by blast
  from t have nn: "nonNegative t"
    using aggregatedDataMap_nonNegative[of r, OF mono zero counts] by fastforce
  have "rateWithin 100 (clicks t) (impressions t)
          (r (toFixed2 (if 0 < impressions t then r (r (clicks t / impressions t) * 100) else 0)))"
    using nn by (intro percent_within[of r, OF mono zero one hundred]) (simp_all add: nonNegative_def)
  then show "rateWithin 100 (total_clicks g) (total_impressions g) (average_ctr g)"
    using deviceResult_member(2,3,8)[OF gt] by simp
  have "rateWithin 100 (conversions t) (clicks t)
          (r (toFixed2 (if 0 < clicks t then r (r (conversions t / clicks t) * 100) else 0)))"
    using nn by (intro percent_within[of r, OF mono zero one hundred]) (simp_all add: nonNegative_def)
  then show "rateWithin 100 (total_conversions g) (total_clicks g) (average_conversion_rate g)"
    using deviceResult_member(3,4,9)[OF gt] by simp
qed

text \<open>
  The claim as stated fails: with no negative count, a week of 10 clicks and 15
  conversions has the conversion rate 3/2.
\<close>

theorem rates_bounded_counterexample:
  "list_all nonNegativeCounts conversionSample
   \<and> map conversions (finalWeeklyList exact sampleGetTime id conversionSample) = [15]
   \<and> map clicks (finalWeeklyList exact sampleGetTime id conversionSample) = [10]
   \<and> map AggregatedWeeklyPerformance.conversionRate
         (finalWeeklyList exact sampleGetTime id conversionSample) = [3 / 2]"
  by code_simp

theorem rates_bounded_witness:
  "list_all nonNegativeCounts fullSample
   \<and> exact 0 = 0 \<and> exact 1 = 1 \<and> exact 100 = 100
   \<and> map AggregatedWeeklyPerformance.ctr (finalWeeklyList exact sampleGetTime id fullSample)
       = [1 / 10, 3 / 50]
   \<and> map AggregatedDemographicGroup.conversionRate (aggregatedList exact fullSample)
       = [1 / 10, 1 / 4, 1 / 10]
   \<and> map AggregatedRegionalPerformance.ctr (finalRegionalList exact fullSample) = [1 / 10, 1 / 10]
   \<and> map average_ctr (restructureDevicePerformance exact fullSample) = [10, 2.33]
   \<and> list_all (\<lambda>g. rateWithin 1 (clicks g) (impressions g) (AggregatedWeeklyPerformance.ctr g))
         (finalWeeklyList exact sampleGetTime id fullSample)
   \<and> list_all (\<lambda>g. rateWithin 1 (conversions g) (clicks g)
                       (AggregatedDemographicGroup.conversionRate g))
         (aggregatedList exact fullSample)
   \<and> list_all (\<lambda>g. rateWithin 1 (clicks g) (impressions g) (AggregatedRegionalPerformance.ctr g))
         (finalRegionalList exact fullSample)
   \<and> list_all (\<lambda>g. rateWithin 100 (total_clicks g) (total_impressions g) (average_ctr g))
         (restructureDevicePerformance exact fullSample)"
proof -
  have counts: "list_all nonNegativeCounts fullSample" by code_simp
  have evaluated:
    "map AggregatedWeeklyPerformance.ctr (finalWeeklyList exact sampleGetTime id fullSample)
       = [1 / 10, 3 / 50]"
    "map AggregatedDemographicGroup.conversionRate (aggregatedList exact fullSample)
       = [1 / 10, 1 / 4, 1 / 10]"
    "map AggregatedRegionalPerformance.ctr (finalRegionalList exact fullSample) = [1 / 10, 1 / 10]"
    "map average_ctr (restructureDevicePerformance exact fullSample) = [10, 2.33]"
    by code_simp+
  have mono: "\<And>x y :: rat. x \<le> y \<Longrightarrow> exact x \<le> exact y" by (simp add: exact_def)
  have fixed: "exact 0 = 0" "exact 1 = 1" "exact 100 = 100" by (simp_all add: exact_def)
  from rates_bounded[where r = exact and campaigns = fullSample and getTime = sampleGetTime
      and engine = id, OF mono fixed counts]
  have "list_all (\<lambda>g. rateWithin 1 (clicks g) (impressions g) (AggregatedWeeklyPerformance.ctr g))
         (finalWeeklyList exact sampleGetTime id fullSample)"
    and "list_all (\<lambda>g. rateWithin 1 (conversions g) (clicks g)
                       (AggregatedDemographicGroup.conversionRate g))
         (aggregatedList exact fullSample)"
    and "list_all (\<lambda>g. rateWithin 1 (clicks g) (impressions g) (AggregatedRegionalPerformance.ctr g))
         (finalRegionalList exact fullSample)"
    and "list_all (\<lambda>g. rateWithin 100 (total_clicks g) (total_impressions g) (average_ctr g))
         (restructureDevicePerformance exact fullSample)"
    by (simp_all add: list_all_iff)
  with counts fixed evaluated show ?thesis by simp
qed

subsection \<open>Evaluating binary64 roundings\<close>










subsection \<open>Pieces of a split string\<close>

lemma split_nonempty: "split sep s \<noteq> []"
  by (induction s) (auto split: list.splits)

lemma split_pieces: "w \<in> set (split sep s) \<Longrightarrow> sep \<notin> set w"
proof (induction s arbitrary: w)
  case Nil
  then show ?case by simp
next
  case (Cons c cs)
  show ?case
  proof (cases "c = sep")
    case True
    with Cons show ?thesis by auto
  next
    case False
    obtain v vs where vs: "split sep cs = v # vs"
      using split_nonempty[of sep cs] by (cases "split sep cs") auto
    with Cons.prems False have "w = c # v \<or> w \<in> set vs" by simp
    then show ?thesis
    proof
      assume "w = c # v"
      moreover have "sep \<notin> set v" using Cons.IH[of v] vs by simp
      ultimately show ?thesis using False by auto
    next
      assume "w \<in> set vs"
      then show ?thesis using Cons.IH[of w] vs by simp
    qed
  qed
qed

lemma destructureKey_ageGroup: "CHR ''-'' \<notin> set (snd (destructureKey key))"
proof (cases "split CHR ''-'' key")
  case Nil
  then show ?thesis by (simp add: destructureKey_def)
next
  case (Cons g rest)
  show ?thesis
  proof (cases rest)
    case Nil
    with Cons show ?thesis by (simp add: destructureKey_def)
  next
    case (Cons a more)
    with \<open>split CHR ''-'' key = g # rest\<close> have "a \<in> set (split CHR ''-'' key)" by simp
    then have "CHR ''-'' \<notin> set a" by (rule split_pieces)
    with Cons \<open>split CHR ''-'' key = g # rest\<close> show ?thesis by (simp add: destructureKey_def)
  qed
qed

text \<open>
  Claim C2, at an input where it fails.  The campaign has the age groups \<open>25-34\<close> and
  \<open>18-24\<close>; the groups, the rows of both tables and the labels of both bar charts carry
  \<open>25\<close> and \<open>18\<close>, the text before the hyphen.  The charts are in ascending order of that
  number.
\<close>

theorem age_group_label_truncated:
  "map age_group (demographic_breakdown splitCampaign) = [''25-34'', ''18-24'']
   \<and> map fst (demographicMap exact [splitCampaign]) = [''Male-25-34'', ''Female-18-24'']
   \<and> map AggregatedDemographicGroup.ageGroup (aggregatedList exact [splitCampaign]) = [''25'', ''18'']
   \<and> map TableRow.ageGroup (maleTableData (demographicAggregatedData exact id [splitCampaign]))
       = [''25'']
   \<and> map TableRow.ageGroup (femaleTableData (demographicAggregatedData exact id [splitCampaign]))
       = [''18'']
   \<and> map ChartDataPoint.label (spendChart (demographicAggregatedData exact id [splitCampaign]))
       = [''18'', ''25'']
   \<and> map ChartDataPoint.label (revenueChart (demographicAggregatedData exact id [splitCampaign]))
       = [''18'', ''25'']"
  by code_simp

text \<open>
  No group of the demographic aggregation carries an age group with a hyphen in it, whatever
  the input: the label is one piece of the key split at its hyphens.
\<close>

theorem age_group_without_hyphen:
  "\<forall>g \<in> set (aggregatedList r campaigns). CHR ''-'' \<notin> set (AggregatedDemographicGroup.ageGroup g)"
proof
  fix g assume "g \<in> set (aggregatedList r campaigns)"
  then obtain p where "g = demographicGroup r p" using aggregatedList_member by blast
  then show "CHR ''-'' \<notin> set (AggregatedDemographicGroup.ageGroup g)"
    by (simp add: demographicGroup_def Let_def destructureKey_ageGroup)
qed

theorem age_group_without_hyphen_witness:
  "map AggregatedDemographicGroup.ageGroup (aggregatedList exact fullSample) = [''25'', ''18'', ''18'']
   \<and> list_all (\<lambda>g. CHR ''-'' \<notin> set (AggregatedDemographicGroup.ageGroup g))
         (aggregatedList exact fullSample)"
proof -
  have "map AggregatedDemographicGroup.ageGroup (aggregatedList exact fullSample)
          = [''25'', ''18'', ''18'']"
    by code_simp
  with age_group_without_hyphen[of exact fullSample] show ?thesis
    by (simp add: list_all_iff)
qed

text \<open>
  When every label of the age map starts with a number, the two bar charts list the age
  groups in ascending order of that number.
\<close>

theorem charts_sorted_by_leading_number:
  assumes "list_all (\<lambda>p. \<not> Option.is_none (leadingNumber r (fst p)))
             (objectEntries (ageDataMap r campaigns))"
  shows "sorted (map (theKey (leadingNumber r)) (map ChartDataPoint.label
            (spendChart (demographicAggregatedData r engine campaigns))))
       \<and> sorted (map (theKey (leadingNumber r)) (map ChartDataPoint.label
            (revenueChart (demographicAggregatedData r engine campaigns))))"
proof (cases "campaigns = []")
  case True
  then show ?thesis by (simp add: demographicAggregatedData_def)
next
  case False
  have key: "theKey (leadingNumber r) (fst p) = theKey (\<lambda>p. leadingNumber r (fst p)) p" for p :: "string \<times> AgeTotals"
    by (simp add: theKey_def)
  have "sorted (map (theKey (\<lambda>p. leadingNumber r (fst p))) (ageGroups r engine campaigns))"
    using assms by (simp add: ageGroups_def sortByNumber_def)
  then have "sorted (map (\<lambda>p. theKey (leadingNumber r) (fst p)) (ageGroups r engine campaigns))"
    by (simp add: key)
  with False show ?thesis
    by (simp add: demographicAggregatedData_def spendBar_def revenueBar_def comp_def)
qed

theorem charts_sorted_by_leading_number_witness:
  "list_all (\<lambda>p. \<not> Option.is_none (leadingNumber exact (fst p)))
      (objectEntries (ageDataMap exact [splitCampaign]))
   \<and> map ChartDataPoint.label (spendChart (demographicAggregatedData exact id [splitCampaign]))
       = [''18'', ''25'']
   \<and> map (theKey (leadingNumber exact)) [''18'', ''25''] = [18, 25]
   \<and> sorted (map (theKey (leadingNumber exact)) (map ChartDataPoint.label
            (spendChart (demographicAggregatedData exact id [splitCampaign]))))"
proof -
  have evaluated:
    "list_all (\<lambda>p. \<not> Option.is_none (leadingNumber exact (fst p)))
        (objectEntries (ageDataMap exact [splitCampaign]))"
    "map ChartDataPoint.label (spendChart (demographicAggregatedData exact id [splitCampaign]))
       = [''18'', ''25'']"
    "map (theKey (leadingNumber exact)) [''18'', ''25''] = [18, 25]"
    by code_simp+
  from charts_sorted_by_leading_number[OF evaluated(1), of id] evaluated show ?thesis
    by simp
qed

end
